theory Spec2Isabelle
  imports Main
begin

section \<open>Strings and regular expressions of the ingestion core\<close>

text \<open>
  JavaScript strings are sequences of UTF-16 code units. The development reads a
  \<^typ>\<open>char\<close> as one code unit below 256, so that \<^const>\<open>length\<close> is the
  \<^verbatim>\<open>.length\<close> of the source and a string is a \<^typ>\<open>string\<close>.
  In that range the white space of \<^verbatim>\<open>String.prototype.trim\<close> and of the
  regular expression class \<^verbatim>\<open>\s\<close> is TAB, LF, VT, FF, CR, SPACE and NBSP.
\<close>

abbreviation LF :: char where
  "LF \<equiv> CHR 0x0A"

definition is_space :: "char \<Rightarrow> bool" where
  "is_space c =
     (c = CHR 0x09 \<or> c = LF \<or> c = CHR 0x0B \<or> c = CHR 0x0C \<or> c = CHR 0x0D
      \<or> c = CHR 0x20 \<or> c = CHR 0xA0)"

text \<open>The line terminators, which \<^verbatim>\<open>.\<close> of a regular expression does not match.\<close>

definition is_line_terminator :: "char \<Rightarrow> bool" where
  "is_line_terminator c = (c = LF \<or> c = CHR 0x0D)"

definition trim :: "string \<Rightarrow> string" where
  "trim s = rev (dropWhile is_space (rev (dropWhile is_space s)))"

text \<open>
  \<^verbatim>\<open>replaceAll(/\s+/g, rep)\<close> for a replacement of one character: every maximal run
  of white space becomes that character.
\<close>

function replaceSpaceRuns :: "char \<Rightarrow> string \<Rightarrow> string" where
  "replaceSpaceRuns rep [] = []"
| "replaceSpaceRuns rep (c # cs) =
     (if is_space c then rep # replaceSpaceRuns rep (dropWhile is_space cs)
      else c # replaceSpaceRuns rep cs)"
  by pat_completeness auto
termination
  by (relation "measure (\<lambda>(rep, s). length s)") (auto simp: less_Suc_eq_le length_dropWhile_le)

definition collapse_ws :: "string \<Rightarrow> string" where
  "collapse_ws s = replaceSpaceRuns (CHR 0x20) s"

text \<open>
  The flag \<^verbatim>\<open>i\<close> compares characters after the canonicalisation of the
  regular expression semantics. On code units below 256 it maps a lower-case ASCII
  letter to its upper-case letter (32 less: the bit of weight 32 cleared) and leaves every
  other character alone.
\<close>

definition is_lower :: "char \<Rightarrow> bool" where
  "is_lower c = (c \<in> set ''abcdefghijklmnopqrstuvwxyz'')"

fun canonicalize :: "char \<Rightarrow> char" where
  "canonicalize (Char b0 b1 b2 b3 b4 b5 b6 b7) =
     (if is_lower (Char b0 b1 b2 b3 b4 b5 b6 b7) then Char b0 b1 b2 b3 b4 False b6 b7
      else Char b0 b1 b2 b3 b4 b5 b6 b7)"

fun ci_prefix :: "string \<Rightarrow> string \<Rightarrow> bool" where
  "ci_prefix [] s = True"
| "ci_prefix (p # ps) [] = False"
| "ci_prefix (p # ps) (c # cs) = (canonicalize p = canonicalize c \<and> ci_prefix ps cs)"

text \<open>
  \<open>find_close cl s\<close> is the text behind the leftmost occurrence of the closing tag
  \<open>cl\<close> in \<open>s\<close>: where the lazy \<^verbatim>\<open>[\s\S]*?\<close> stops.
\<close>

fun find_close :: "string \<Rightarrow> string \<Rightarrow> string option" where
  "find_close cl [] = (if cl = [] then Some [] else None)"
| "find_close cl (c # cs) =
     (if ci_prefix cl (c # cs) then Some (drop (length cl) (c # cs)) else find_close cl cs)"

datatype tag = Caveat | Reminder | Stdout

fun open_tag :: "tag \<Rightarrow> string" where
  "open_tag Caveat = ''<local-command-caveat>''"
| "open_tag Reminder = ''<system-reminder>''"
| "open_tag Stdout = ''<local-command-stdout>''"

fun close_tag :: "tag \<Rightarrow> string" where
  "close_tag Caveat = ''</local-command-caveat>''"
| "close_tag Reminder = ''</system-reminder>''"
| "close_tag Stdout = ''</local-command-stdout>''"

lemma find_close_length: "find_close cl s = Some r \<Longrightarrow> length r \<le> length s"
  by (induction s) (auto split: if_splits)

lemma open_tag_nonempty: "0 < length (open_tag t)"
  by (cases t) simp_all

text \<open>
  \<^verbatim>\<open>value.replaceAll(/<tag>[\s\S]*?<\/tag>/gi, "")\<close>: the scan goes left to right;
  where the opening tag matches and a closing tag follows, the span up to the end of the
  first closing tag is dropped and the scan goes on behind it; elsewhere the character is
  kept.
\<close>

function removeTagged :: "tag \<Rightarrow> string \<Rightarrow> string" where
  "removeTagged t [] = []"
| "removeTagged t (c # cs) =
     (if ci_prefix (open_tag t) (c # cs) then
        (case find_close (close_tag t) (drop (length (open_tag t)) (c # cs)) of
           Some rest \<Rightarrow> removeTagged t rest
         | None \<Rightarrow> c # removeTagged t cs)
      else c # removeTagged t cs)"
  by pat_completeness auto
termination
  apply (relation "measure (\<lambda>(t, s). length s)")
     apply simp_all
  subgoal for t c cs rest
    using find_close_length [of "close_tag t" "drop (length (open_tag t)) (c # cs)" rest]
      open_tag_nonempty [of t]
    by (cases "open_tag t") auto
  done

definition sanitizeImportedText :: "string \<Rightarrow> string" where
  "sanitizeImportedText v =
     trim (removeTagged Stdout (removeTagged Reminder (removeTagged Caveat v)))"

text \<open>\<^verbatim>\<open>sanitizeImportedText(x).replaceAll(/\s+/g, " ").trim()\<close>, as title and summary use it.\<close>

definition cleanText :: "string \<Rightarrow> string" where
  "cleanText v = trim (collapse_ws (sanitizeImportedText v))"

definition fallbackSessionTitle :: "string \<Rightarrow> string \<Rightarrow> string" where
  "fallbackSessionTitle content sessionId =
     (let clean = cleanText content
      in if clean = [] then ''Session '' @ take 8 sessionId else take 80 clean)"

section \<open>Canonical data model\<close>

datatype MessageRole = USER | ASSISTANT | TOOL

datatype MessagePartType =
  P_TEXT | P_REASONING | P_TOOL | P_STEP_START | P_STEP_FINISH | P_ERROR | P_OTHER

text \<open>
  A parsed JSON document. Numbers are the integers (the sources read them as millisecond
  time stamps and token counts); an object is the list of its properties.
\<close>

datatype json =
  JNull | JBool bool | JNum int | JStr string | JArr "json list" | JObj "(string \<times> json) list"

text \<open>A \<^verbatim>\<open>Date\<close> is its \<^verbatim>\<open>getTime()\<close>: milliseconds since the epoch.\<close>

type_synonym date = int

record IngestMessagePartInput =
  p_externalPartId :: string
  p_partType :: MessagePartType
  p_text :: "string option"
  p_data :: "json option"
  p_sourceTimestamp :: "date option"
  p_ordinal :: nat

record IngestMessageInput =
  m_externalMessageId :: string
  m_role :: MessageRole
  m_modelProvider :: "string option"
  m_modelId :: "string option"
  m_content :: string
  m_metadata :: "json option"
  m_sourceTimestamp :: "date option"
  m_ordinal :: nat
  m_parts :: "IngestMessagePartInput list"

record IngestSessionInput =
  s_externalSessionId :: string
  s_sourceSessionPath :: "string option"
  s_title :: string
  s_summary :: "string option"
  s_startedAt :: "date option"
  s_endedAt :: "date option"
  s_lastActivityAt :: "date option"
  s_messages :: "IngestMessageInput list"

section \<open>Derived summary\<close>

text \<open>
  \<^verbatim>\<open>messages.find(assistant) ?? messages.find(user) ?? messages[0]\<close>; \<open>None\<close> is
  \<^verbatim>\<open>undefined\<close>.
\<close>

definition bestMessage :: "IngestMessageInput list \<Rightarrow> IngestMessageInput option" where
  "bestMessage messages =
     (case find (\<lambda>m. m_role m = ASSISTANT) messages of
        Some m \<Rightarrow> Some m
      | None \<Rightarrow>
          (case find (\<lambda>m. m_role m = USER) messages of
             Some m \<Rightarrow> Some m
           | None \<Rightarrow> (case messages of [] \<Rightarrow> None | m # _ \<Rightarrow> Some m)))"

definition deriveSessionSummary :: "IngestMessageInput list \<Rightarrow> string option" where
  "deriveSessionSummary messages =
     (case bestMessage messages of
        None \<Rightarrow> None
      | Some best \<Rightarrow>
          if m_content best = [] then None
          else
            (let clean = cleanText (m_content best)
             in if clean = [] then None
                else Some (if 180 < length clean then take 177 clean @ ''...'' else clean)))"

section \<open>Transcript parser\<close>

datatype CanonicalMessageRole = user | assistant | tool

record ParsedMessage =
  role :: CanonicalMessageRole
  content :: string

text \<open>
  \<^verbatim>\<open>raw.split(/\n{2,}/)\<close>: a maximal run of two or more line feeds separates two
  chunks; \<open>cur\<close> is the chunk read so far.
\<close>

function splitBlank :: "string \<Rightarrow> string \<Rightarrow> string list" where
  "splitBlank cur [] = [cur]"
| "splitBlank cur (c # cs) =
     (if c = LF \<and> (case cs of [] \<Rightarrow> False | d # _ \<Rightarrow> d = LF)
      then cur # splitBlank [] (dropWhile (\<lambda>x. x = LF) cs)
      else splitBlank (cur @ [c]) cs)"
  by pat_completeness auto
termination
  by (relation "measure (\<lambda>(cur, s). length s)") (auto simp: less_Suc_eq_le length_dropWhile_le)

text \<open>\<^verbatim>\<open>chunk.split("\n")\<close>.\<close>

fun splitLines :: "string \<Rightarrow> string \<Rightarrow> string list" where
  "splitLines cur [] = [cur]"
| "splitLines cur (c # cs) =
     (if c = LF then cur # splitLines [] cs else splitLines (cur @ [c]) cs)"

text \<open>\<^verbatim>\<open>lines.join("\n")\<close>.\<close>

fun joinLines :: "string list \<Rightarrow> string" where
  "joinLines [] = []"
| "joinLines [l] = l"
| "joinLines (l # ls) = l @ LF # joinLines ls"

text \<open>
  \<^verbatim>\<open>line.match(/^label\s*(.*)$/i)\<close>, the result being the capture group. The greedy
  \<^verbatim>\<open>\s*\<close> takes all the white space behind the label; what follows must reach the
  end of the line without a line terminator, and giving white space back cannot help.
\<close>

definition matchRole :: "string \<Rightarrow> string \<Rightarrow> string option" where
  "matchRole label line =
     (if ci_prefix label line then
        (let r = dropWhile is_space (drop (length label) line)
         in if list_ex is_line_terminator r then None else Some r)
      else None)"

text \<open>The content of a labelled chunk: the capture, a line feed and the other lines, trimmed.\<close>

definition labelledContent :: "string \<Rightarrow> string \<Rightarrow> string" where
  "labelledContent captured others = trim (captured @ (if others = [] then [] else LF # others))"

text \<open>The callback of \<^verbatim>\<open>chunks.map((chunk, index) => ...)\<close>; \<open>None\<close> is \<^verbatim>\<open>null\<close>.\<close>

definition parseChunk :: "nat \<Rightarrow> string \<Rightarrow> ParsedMessage option" where
  "parseChunk index chunk =
     (let lines = splitLines [] chunk;
          firstLine = trim (hd lines);
          others = trim (joinLines (tl lines))
      in if firstLine = [] then None
         else
           (case matchRole ''user:'' firstLine of
              Some m \<Rightarrow> Some \<lparr>role = user, content = labelledContent m others\<rparr>
            | None \<Rightarrow>
                (case matchRole ''assistant:'' firstLine of
                   Some m \<Rightarrow> Some \<lparr>role = assistant, content = labelledContent m others\<rparr>
                 | None \<Rightarrow>
                     (case matchRole ''tool:'' firstLine of
                        Some m \<Rightarrow> Some \<lparr>role = tool, content = labelledContent m others\<rparr>
                      | None \<Rightarrow>
                          Some \<lparr>role = (if index mod 2 = 0 then user else assistant),
                                content = chunk\<rparr>))))"

text \<open>\<^verbatim>\<open>raw.split(/\n{2,}/).map((chunk) => chunk.trim()).filter(Boolean)\<close>.\<close>

definition transcriptChunks :: "string \<Rightarrow> string list" where
  "transcriptChunks raw = filter (\<lambda>chunk. chunk \<noteq> []) (map trim (splitBlank [] raw))"

definition parseTranscript :: "string \<Rightarrow> ParsedMessage list" where
  "parseTranscript raw =
     (let chunks = transcriptChunks raw
      in List.map_filter (\<lambda>(index, chunk). parseChunk index chunk)
           (zip [0 ..< length chunks] chunks))"

text \<open>A chunk is unlabelled when its first line carries none of the three role labels.\<close>

definition unlabelled :: "string \<Rightarrow> bool" where
  "unlabelled chunk =
     (let firstLine = trim (hd (splitLines [] chunk))
      in matchRole ''user:'' firstLine = None \<and> matchRole ''assistant:'' firstLine = None
         \<and> matchRole ''tool:'' firstLine = None)"

section \<open>Concrete inputs\<close>

text \<open>A message of the given role and content, as the unit tests of the pipeline build it.\<close>

definition mkMessage :: "MessageRole \<Rightarrow> string \<Rightarrow> IngestMessageInput" where
  "mkMessage r c =
     \<lparr>m_externalMessageId = ''m'', m_role = r, m_modelProvider = None, m_modelId = None,
      m_content = c, m_metadata = None, m_sourceTimestamp = None, m_ordinal = 0, m_parts = []\<rparr>"

section \<open>JSON values and the environment of the adapters\<close>

text \<open>
  \<open>getProp v k\<close> is the property access \<^verbatim>\<open>v.k\<close> on a value that is neither
  \<^verbatim>\<open>null\<close> nor \<^verbatim>\<open>undefined\<close>; \<open>None\<close> is \<^verbatim>\<open>undefined\<close>. Only an
  object has the properties that the adapters read.
\<close>

fun getProp :: "json \<Rightarrow> string \<Rightarrow> json option" where
  "getProp (JObj kvs) k = map_of kvs k"
| "getProp v k = None"

text \<open>\<^verbatim>\<open>v?.k\<close>: \<^verbatim>\<open>undefined\<close> when \<open>v\<close> is \<^verbatim>\<open>undefined\<close> or \<^verbatim>\<open>null\<close>.\<close>

fun optProp :: "json option \<Rightarrow> string \<Rightarrow> json option" where
  "optProp None k = None"
| "optProp (Some JNull) k = None"
| "optProp (Some v) k = getProp v k"

fun toStringValue :: "json option \<Rightarrow> string option" where
  "toStringValue (Some (JStr s)) = Some s"
| "toStringValue v = None"

fun toNumberValue :: "json option \<Rightarrow> int option" where
  "toNumberValue (Some (JNum n)) = Some n"
| "toNumberValue v = None"

text \<open>\<^verbatim>\<open>typeof v === "object"\<close> for a value that is not \<^verbatim>\<open>null\<close>: objects and arrays.\<close>

fun isObject :: "json \<Rightarrow> bool" where
  "isObject (JObj kvs) = True"
| "isObject (JArr vs) = True"
| "isObject v = False"

text \<open>\<^verbatim>\<open>a ?? b\<close> on optional strings.\<close>

fun orElse :: "'a option \<Rightarrow> 'a option \<Rightarrow> 'a option" where
  "orElse (Some a) b = Some a"
| "orElse None b = b"

text \<open>A string in a condition: the empty string and \<^verbatim>\<open>undefined\<close> are falsy.\<close>

fun truthy :: "string option \<Rightarrow> bool" where
  "truthy None = False"
| "truthy (Some s) = (s \<noteq> [])"

text \<open>\<^verbatim>\<open>toJsonInput\<close> sends a JSON value through \<^verbatim>\<open>stringify\<close> and \<^verbatim>\<open>parse\<close>.\<close>

definition toJsonInput :: "json option \<Rightarrow> json option" where
  "toJsonInput v = v"

text \<open>
  What the adapters take from the platform: the parsing of a date string
  (\<open>None\<close> is the invalid date), the ISO form of a date, the SHA-1 digest in
  hexadecimal, \<^verbatim>\<open>JSON.parse\<close> (\<open>None\<close> when it throws), the test of the schema
  for an ISO date-time string, the three settings read from the process environment, and
  the default of the column \<^verbatim>\<open>isEnabled\<close> of a source, which the database schema
  declares.
\<close>

record env =
  e_parseDate :: "string \<Rightarrow> date option"
  e_toISOString :: "date \<Rightarrow> string"
  e_sha1 :: "string \<Rightarrow> string"
  e_jsonParse :: "string \<Rightarrow> json option"
  e_isDatetime :: "string \<Rightarrow> bool"
  e_lookbackDays :: int
  e_claudeRoot :: string
  e_opencodeHome :: string
  e_enabledDefault :: bool

text \<open>What is thrown: an \<^verbatim>\<open>Error\<close> with its message, or another value.\<close>

datatype exn = Error string | NonError

text \<open>
  The file system: the files below a directory in the order \<^verbatim>\<open>listFiles\<close> walks
  them (none when the directory cannot be read), the modification time of a file and its
  text; the last two can throw.
\<close>

record fs =
  fs_files :: "string \<Rightarrow> string list"
  fs_mtime :: "string \<Rightarrow> exn + date"
  fs_readFile :: "string \<Rightarrow> exn + string"

definition hashValue :: "env \<Rightarrow> string \<Rightarrow> string" where
  "hashValue env input = e_sha1 env input"

definition toDate :: "env \<Rightarrow> string option \<Rightarrow> date option" where
  "toDate env v = (if truthy v then e_parseDate env (the v) else None)"

text \<open>A time value beyond 8.64e15 ms in magnitude gives the invalid date.\<close>

definition toDateFromMs :: "int option \<Rightarrow> date option" where
  "toDateFromMs v =
     (case v of
        None \<Rightarrow> None
      | Some n \<Rightarrow> if \<bar>n\<bar> \<le> 8640000000000000 then Some n else None)"

definition endsWith :: "string \<Rightarrow> string \<Rightarrow> bool" where
  "endsWith s suf = (length suf \<le> length s \<and> drop (length s - length suf) s = suf)"

definition listFiles :: "fs \<Rightarrow> string \<Rightarrow> (string \<Rightarrow> bool) \<Rightarrow> string list" where
  "listFiles fs directory incl = filter incl (fs_files fs directory)"

definition safeReadJson :: "env \<Rightarrow> fs \<Rightarrow> string \<Rightarrow> json" where
  "safeReadJson env fs filePath =
     (case fs_readFile fs filePath of
        Inl e \<Rightarrow> JNull
      | Inr raw \<Rightarrow> (case e_jsonParse env raw of None \<Rightarrow> JNull | Some v \<Rightarrow> v))"

text \<open>\<^verbatim>\<open>path.join\<close> of two segments.\<close>

definition pathJoin :: "string \<Rightarrow> string \<Rightarrow> string" where
  "pathJoin a b = a @ ''/'' @ b"

text \<open>A number in a template string: its decimal digits.\<close>

function showNat :: "nat \<Rightarrow> string" where
  "showNat n =
     (if n < 10 then [''0123456789'' ! n]
      else showNat (n div 10) @ [''0123456789'' ! (n mod 10)])"
  by pat_completeness auto
termination
  by (relation "measure id") auto

section \<open>Role and part type mappers\<close>

definition mapClaudeRole :: "string option \<Rightarrow> MessageRole" where
  "mapClaudeRole t =
     (if t = Some ''assistant'' then ASSISTANT
      else if t = Some ''system'' \<or> t = Some ''progress'' then TOOL
      else USER)"

definition mapClaudePartType :: "string option \<Rightarrow> MessagePartType" where
  "mapClaudePartType t =
     (if t = Some ''text'' then P_TEXT
      else if t = Some ''thinking'' then P_REASONING
      else if t = Some ''tool_use'' \<or> t = Some ''tool_result'' then P_TOOL
      else P_OTHER)"

definition mapOpenCodeRole :: "string option \<Rightarrow> MessageRole" where
  "mapOpenCodeRole v =
     (if v = Some ''assistant'' then ASSISTANT
      else if v = Some ''tool'' then TOOL
      else USER)"

definition mapOpenCodePartType :: "string option \<Rightarrow> MessagePartType" where
  "mapOpenCodePartType t =
     (if t = Some ''text'' then P_TEXT
      else if t = Some ''reasoning'' then P_REASONING
      else if t = Some ''tool'' then P_TOOL
      else if t = Some ''step-start'' then P_STEP_START
      else if t = Some ''step-finish'' then P_STEP_FINISH
      else if t = Some ''error'' then P_ERROR
      else P_OTHER)"

section \<open>The line-delimited JSON adapter: one event\<close>

definition sanitizeIfText :: "string option \<Rightarrow> string option" where
  "sanitizeIfText t = (if truthy t then Some (sanitizeImportedText (the t)) else None)"

definition extractClaudePartText :: "json \<Rightarrow> MessagePartType \<Rightarrow> string option" where
  "extractClaudePartText item partType =
     (if partType = P_TEXT then
        sanitizeIfText (orElse (toStringValue (getProp item ''text'')) (toStringValue (getProp item ''content'')))
      else if partType = P_REASONING then
        sanitizeIfText (orElse (toStringValue (getProp item ''thinking'')) (toStringValue (getProp item ''text'')))
      else if partType = P_TOOL then
        (let name = toStringValue (getProp item ''name'')
         in if truthy name then Some (''[tool] '' @ the name)
            else Some (case toStringValue (getProp item ''type'') of Some t \<Rightarrow> t | None \<Rightarrow> ''tool''))
      else toStringValue (getProp item ''text''))"

text \<open>\<^verbatim>\<open>typeof parsed.message === "object" && parsed.message !== null\<close>, then a property of it.\<close>

definition messageRecordProp :: "json \<Rightarrow> string \<Rightarrow> json option" where
  "messageRecordProp parsed k =
     (case getProp parsed ''message'' of
        Some m \<Rightarrow> if isObject m then getProp m k else None
      | None \<Rightarrow> None)"

definition extractProviderFromClaude :: "json \<Rightarrow> string option" where
  "extractProviderFromClaude parsed =
     (let direct = toStringValue (getProp parsed ''provider'')
      in if truthy direct then direct
         else Some (case toStringValue (messageRecordProp parsed ''provider'') of
                      Some p \<Rightarrow> p | None \<Rightarrow> ''anthropic''))"

definition extractModelFromClaude :: "json \<Rightarrow> string option" where
  "extractModelFromClaude parsed =
     (let direct = toStringValue (getProp parsed ''model'')
      in if truthy direct then direct else toStringValue (messageRecordProp parsed ''model''))"

text \<open>
  The loop of \<^verbatim>\<open>buildClaudeMessage\<close> over \<^verbatim>\<open>rawContent.entries()\<close>: an entry that
  is not an object is passed over, and a part takes the index of its entry as its ordinal.
  The result is the parts and the visible texts, in order.
\<close>

fun claudeParts ::
  "env \<Rightarrow> string \<Rightarrow> string \<Rightarrow> date option \<Rightarrow> nat \<Rightarrow> json list
     \<Rightarrow> IngestMessagePartInput list \<times> string list" where
  "claudeParts env sessionId uuid ts index [] = ([], [])"
| "claudeParts env sessionId uuid ts index (item # items) =
     (let (parts, visible) = claudeParts env sessionId uuid ts (Suc index) items
      in if \<not> isObject item then (parts, visible)
         else
           (let partType = mapClaudePartType (toStringValue (getProp item ''type''));
                partText = extractClaudePartText item partType
            in (\<lparr>p_externalPartId =
                    hashValue env (sessionId @ '':'' @ uuid @ '':part:'' @ showNat index),
                  p_partType = partType, p_text = partText, p_data = toJsonInput (Some item),
                  p_sourceTimestamp = ts, p_ordinal = index\<rparr> # parts,
                if truthy partText \<and> partType = P_TEXT then the partText # visible else visible)))"

text \<open>\<^verbatim>\<open>visibleText.join("\n\n")\<close>.\<close>

fun joinBlank :: "string list \<Rightarrow> string" where
  "joinBlank [] = []"
| "joinBlank [t] = t"
| "joinBlank (t # ts) = t @ LF # LF # joinBlank ts"

text \<open>\<^verbatim>\<open>parsed.message?.content ?? parsed.content\<close>.\<close>

definition claudeRawContent :: "json \<Rightarrow> json option" where
  "claudeRawContent parsed =
     (let rawMessage = optProp (getProp parsed ''message'') ''content''
      in if rawMessage = None \<or> rawMessage = Some JNull
         then getProp parsed ''content'' else rawMessage)"

definition buildClaudeMessage :: "env \<Rightarrow> json \<Rightarrow> string \<Rightarrow> string \<Rightarrow> IngestMessageInput option" where
  "buildClaudeMessage env parsed sessionId filePath =
     (let sourceTimestamp = toDate env (toStringValue (getProp parsed ''timestamp''));
          msgRole = mapClaudeRole (toStringValue (getProp parsed ''type''));
          rawContent = claudeRawContent parsed;
          uuid = (case toStringValue (getProp parsed ''uuid'') of Some u \<Rightarrow> u | None \<Rightarrow> []);
          built =
            (case rawContent of
               Some (JStr raw) \<Rightarrow>
                 (let trimmed = sanitizeImportedText raw
                  in if trimmed = [] then None
                     else Some (trimmed,
                       [\<lparr>p_externalPartId = hashValue env (sessionId @ '':'' @ uuid @ '':text''),
                         p_partType = P_TEXT, p_text = Some trimmed,
                         p_data = toJsonInput rawContent, p_sourceTimestamp = sourceTimestamp,
                         p_ordinal = 0\<rparr>]))
             | Some (JArr items) \<Rightarrow>
                 (let (parts, visible) = claudeParts env sessionId uuid sourceTimestamp 0 items
                  in Some (trim (joinBlank visible), parts))
             | _ \<Rightarrow> Some ([], []))
      in case built of
           None \<Rightarrow> None
         | Some (msgContent, parts) \<Rightarrow>
             if msgContent = [] then None
             else
               Some \<lparr>m_externalMessageId =
                        (case orElse (toStringValue (getProp parsed ''uuid''))
                                (toStringValue (optProp (getProp parsed ''message'') ''id'')) of
                           Some i \<Rightarrow> i
                         | None \<Rightarrow>
                             hashValue env (sessionId @ '':'' @ filePath @ '':'' @ take 100 msgContent)),
                     m_role = msgRole,
                     m_modelProvider = extractProviderFromClaude parsed,
                     m_modelId = extractModelFromClaude parsed,
                     m_content = msgContent,
                     m_metadata = toJsonInput (Some parsed),
                     m_sourceTimestamp = sourceTimestamp,
                     m_ordinal = 0,
                     m_parts = parts\<rparr>)"

section \<open>The store of sessions, messages and parts\<close>

record SourceToolRow =
  st_id :: nat
  st_slug :: string
  st_name :: string

record WorkspaceRow =
  ws_id :: nat
  ws_name :: string
  ws_slug :: string
  ws_createdAt :: date

record SessionRow =
  sr_id :: nat
  sr_workspaceId :: nat
  sr_sourceToolId :: nat
  sr_externalSessionId :: "string option"
  sr_sourceSessionPath :: "string option"
  sr_title :: string
  sr_summary :: "string option"
  sr_startedAt :: "date option"
  sr_endedAt :: "date option"
  sr_lastActivityAt :: "date option"
  sr_importSource :: "string option"
  sr_importedAt :: "date option"

record MessageRow =
  mr_id :: nat
  mr_sessionId :: nat
  mr_externalMessageId :: "string option"
  mr_role :: MessageRole
  mr_modelProvider :: "string option"
  mr_modelId :: "string option"
  mr_content :: string
  mr_metadata :: "json option"
  mr_sourceTimestamp :: "date option"
  mr_ordinal :: nat
  mr_promptTokens :: "int option"
  mr_completionTokens :: "int option"
  mr_totalTokens :: "int option"

record PartRow =
  pr_id :: nat
  pr_sessionId :: nat
  pr_messageId :: nat
  pr_externalPartId :: string
  pr_partType :: MessagePartType
  pr_text :: "string option"
  pr_data :: "json option"
  pr_sourceTimestamp :: "date option"
  pr_ordinal :: nat

datatype TaskStatus = OPEN | IN_PROGRESS | DONE | CANCELLED

datatype TaskPriority = LOW | MEDIUM | HIGH

record TaskRow =
  tk_id :: nat
  tk_sessionId :: nat
  tk_title :: string
  tk_description :: "string option"
  tk_status :: TaskStatus
  tk_priority :: TaskPriority

record TagRow =
  tg_id :: nat
  tg_name :: string
  tg_slug :: string

record SessionTagRow =
  stg_sessionId :: nat
  stg_tagId :: nat

record ArtifactRow =
  ar_id :: nat
  ar_sessionId :: nat
  ar_messageId :: "nat option"
  ar_type :: string
  ar_name :: string
  ar_content :: string
  ar_metadata :: "json option"

text \<open>The estimated cost is a number of millionths: \<^verbatim>\<open>totalTokens / 1_000_000\<close> to six places.\<close>

record MetricRow =
  mt_id :: nat
  mt_sessionId :: nat
  mt_sourceToolId :: nat
  mt_promptTokens :: int
  mt_completionTokens :: int
  mt_totalTokens :: int
  mt_estimatedCostMillionths :: int

text \<open>
  The tables that the adapters and the bundle entry point write. Rows are kept in the
  order of their creation and take their identifier from \<open>ct_nextId\<close>. \<open>ct_fault\<close>
  is the failure of the database: \<open>Some (n, e)\<close> when it accepts \<open>n\<close> more writes and
  throws \<open>e\<close> at each write after them, \<open>None\<close> when it accepts every write.
\<close>

record content =
  ct_tools :: "SourceToolRow list"
  ct_workspaces :: "WorkspaceRow list"
  ct_sessions :: "SessionRow list"
  ct_messages :: "MessageRow list"
  ct_parts :: "PartRow list"
  ct_tasks :: "TaskRow list"
  ct_tags :: "TagRow list"
  ct_sessionTags :: "SessionTagRow list"
  ct_artifacts :: "ArtifactRow list"
  ct_metrics :: "MetricRow list"
  ct_nextId :: nat
  ct_fault :: "(nat \<times> exn) option"

definition dbWrite :: "(content \<Rightarrow> content \<times> 'a) \<Rightarrow> content \<Rightarrow> content \<times> (exn + 'a)" where
  "dbWrite w c =
     (case ct_fault c of
        None \<Rightarrow> (case w c of (c', a) \<Rightarrow> (c', Inr a))
      | Some (0, e) \<Rightarrow> (c, Inl e)
      | Some (Suc n, e) \<Rightarrow> (case w (c\<lparr>ct_fault := Some (n, e)\<rparr>) of (c', a) \<Rightarrow> (c', Inr a)))"

text \<open>Sequencing of two steps of which the first can throw.\<close>

definition bindDb ::
  "(content \<Rightarrow> content \<times> (exn + 'a)) \<Rightarrow> ('a \<Rightarrow> content \<Rightarrow> content \<times> (exn + 'b))
     \<Rightarrow> content \<Rightarrow> content \<times> (exn + 'b)" where
  "bindDb m f c = (case m c of (c', Inl e) \<Rightarrow> (c', Inl e) | (c', Inr a) \<Rightarrow> f a c')"

text \<open>
  \<^verbatim>\<open>upsert({where, update, create})\<close> on the rows of one table: the rows that match the
  unique key are updated, and when none matches a row is created with the next
  identifier. The result is the rows, the row written and the next identifier.
\<close>

definition upsertRow ::
  "('r \<Rightarrow> bool) \<Rightarrow> ('r \<Rightarrow> 'r) \<Rightarrow> (nat \<Rightarrow> 'r) \<Rightarrow> nat \<Rightarrow> 'r list \<Rightarrow> 'r list \<times> 'r \<times> nat" where
  "upsertRow matches upd cre next rows =
     (case find matches rows of
        Some r \<Rightarrow> (map (\<lambda>x. if matches x then upd x else x) rows, upd r, next)
      | None \<Rightarrow> (rows @ [cre next], cre next, Suc next))"

text \<open>A field that is \<^verbatim>\<open>undefined\<close> in the data of an update leaves the column as it is.\<close>

definition setOpt :: "'a option \<Rightarrow> 'a option \<Rightarrow> 'a option" where
  "setOpt new old = (case new of None \<Rightarrow> old | Some v \<Rightarrow> Some v)"

definition ensureSourceTool :: "string \<Rightarrow> string \<Rightarrow> content \<Rightarrow> content \<times> (exn + nat)" where
  "ensureSourceTool slug name =
     dbWrite (\<lambda>c.
       (case upsertRow (\<lambda>r. st_slug r = slug) (\<lambda>r. r\<lparr>st_name := name\<rparr>)
               (\<lambda>i. \<lparr>st_id = i, st_slug = slug, st_name = name\<rparr>) (ct_nextId c) (ct_tools c) of
          (rows, r, next) \<Rightarrow> (c\<lparr>ct_tools := rows, ct_nextId := next\<rparr>, st_id r)))"

definition ensureWorkspace :: "date \<Rightarrow> content \<Rightarrow> content \<times> (exn + nat)" where
  "ensureWorkspace now c =
     (case sort_key ws_createdAt (ct_workspaces c) of
        existing # _ \<Rightarrow> (c, Inr (ws_id existing))
      | [] \<Rightarrow>
          dbWrite (\<lambda>c.
            (c\<lparr>ct_workspaces := ct_workspaces c
                  @ [\<lparr>ws_id = ct_nextId c, ws_name = ''Default'', ws_slug = ''default'',
                      ws_createdAt = now\<rparr>],
                ct_nextId := Suc (ct_nextId c)\<rparr>, ct_nextId c)) c)"

section \<open>The persistence path of the adapters\<close>

record SourceRunResult =
  rr_scannedSessions :: nat
  rr_upsertedSessions :: nat
  rr_upsertedMessages :: nat
  rr_upsertedParts :: nat
  rr_maxTimestamp :: "date option"
  rr_note :: "string option"

definition sessionSummary :: "IngestSessionInput \<Rightarrow> string option" where
  "sessionSummary s = (case s_summary s of Some t \<Rightarrow> Some t | None \<Rightarrow> deriveSessionSummary (s_messages s))"

definition sessionUpsert ::
  "nat \<Rightarrow> nat \<Rightarrow> string \<Rightarrow> date \<Rightarrow> IngestSessionInput \<Rightarrow> content \<Rightarrow> content \<times> nat" where
  "sessionUpsert sourceToolId workspaceId importSource now s c =
     (case upsertRow
             (\<lambda>r. sr_sourceToolId r = sourceToolId \<and> sr_externalSessionId r = Some (s_externalSessionId s))
             (\<lambda>r. r\<lparr>sr_title := s_title s,
                    sr_summary := sessionSummary s,
                    sr_startedAt := setOpt (s_startedAt s) (sr_startedAt r),
                    sr_endedAt := setOpt (s_endedAt s) (sr_endedAt r),
                    sr_lastActivityAt := setOpt (s_lastActivityAt s) (sr_lastActivityAt r),
                    sr_sourceSessionPath := setOpt (s_sourceSessionPath s) (sr_sourceSessionPath r),
                    sr_importSource := Some importSource,
                    sr_importedAt := Some now\<rparr>)
             (\<lambda>i. \<lparr>sr_id = i, sr_workspaceId = workspaceId, sr_sourceToolId = sourceToolId,
                    sr_externalSessionId = Some (s_externalSessionId s),
                    sr_sourceSessionPath = s_sourceSessionPath s,
                    sr_title = s_title s,
                    sr_summary = sessionSummary s,
                    sr_startedAt = s_startedAt s, sr_endedAt = s_endedAt s,
                    sr_lastActivityAt = s_lastActivityAt s,
                    sr_importSource = Some importSource, sr_importedAt = Some now\<rparr>)
             (ct_nextId c) (ct_sessions c) of
        (rows, r, next) \<Rightarrow> (c\<lparr>ct_sessions := rows, ct_nextId := next\<rparr>, sr_id r))"

definition messageUpsert :: "nat \<Rightarrow> IngestMessageInput \<Rightarrow> content \<Rightarrow> content \<times> nat" where
  "messageUpsert sessionId m c =
     (case upsertRow
             (\<lambda>r. mr_sessionId r = sessionId \<and> mr_externalMessageId r = Some (m_externalMessageId m))
             (\<lambda>r. r\<lparr>mr_role := m_role m,
                    mr_modelProvider := setOpt (m_modelProvider m) (mr_modelProvider r),
                    mr_modelId := setOpt (m_modelId m) (mr_modelId r),
                    mr_content := m_content m,
                    mr_metadata := setOpt (m_metadata m) (mr_metadata r),
                    mr_sourceTimestamp := setOpt (m_sourceTimestamp m) (mr_sourceTimestamp r),
                    mr_ordinal := m_ordinal m\<rparr>)
             (\<lambda>i. \<lparr>mr_id = i, mr_sessionId = sessionId,
                    mr_externalMessageId = Some (m_externalMessageId m),
                    mr_role = m_role m, mr_modelProvider = m_modelProvider m,
                    mr_modelId = m_modelId m, mr_content = m_content m,
                    mr_metadata = m_metadata m, mr_sourceTimestamp = m_sourceTimestamp m,
                    mr_ordinal = m_ordinal m, mr_promptTokens = None,
                    mr_completionTokens = None, mr_totalTokens = None\<rparr>)
             (ct_nextId c) (ct_messages c) of
        (rows, r, next) \<Rightarrow> (c\<lparr>ct_messages := rows, ct_nextId := next\<rparr>, mr_id r))"

definition partUpsert :: "nat \<Rightarrow> nat \<Rightarrow> IngestMessagePartInput \<Rightarrow> content \<Rightarrow> content \<times> nat" where
  "partUpsert sessionId messageId p c =
     (case upsertRow
             (\<lambda>r. pr_messageId r = messageId \<and> pr_externalPartId r = p_externalPartId p)
             (\<lambda>r. r\<lparr>pr_partType := p_partType p,
                    pr_text := setOpt (p_text p) (pr_text r),
                    pr_data := setOpt (p_data p) (pr_data r),
                    pr_sourceTimestamp := setOpt (p_sourceTimestamp p) (pr_sourceTimestamp r),
                    pr_ordinal := p_ordinal p,
                    pr_sessionId := sessionId\<rparr>)
             (\<lambda>i. \<lparr>pr_id = i, pr_sessionId = sessionId, pr_messageId = messageId,
                    pr_externalPartId = p_externalPartId p, pr_partType = p_partType p,
                    pr_text = p_text p, pr_data = p_data p,
                    pr_sourceTimestamp = p_sourceTimestamp p, pr_ordinal = p_ordinal p\<rparr>)
             (ct_nextId c) (ct_parts c) of
        (rows, r, next) \<Rightarrow> (c\<lparr>ct_parts := rows, ct_nextId := next\<rparr>, pr_id r))"

text \<open>The three nested loops of \<^verbatim>\<open>persistSessions\<close>, with the counters they increase.\<close>

fun persistParts ::
  "nat \<Rightarrow> nat \<Rightarrow> IngestMessagePartInput list \<Rightarrow> nat \<Rightarrow> content \<Rightarrow> content \<times> (exn + nat)" where
  "persistParts sessionId messageId [] np c = (c, Inr np)"
| "persistParts sessionId messageId (p # ps) np c =
     (case dbWrite (partUpsert sessionId messageId p) c of
        (c', Inl e) \<Rightarrow> (c', Inl e)
      | (c', Inr i) \<Rightarrow> persistParts sessionId messageId ps (Suc np) c')"

fun persistMessages ::
  "nat \<Rightarrow> IngestMessageInput list \<Rightarrow> nat \<times> nat \<Rightarrow> content \<Rightarrow> content \<times> (exn + nat \<times> nat)" where
  "persistMessages sessionId [] counts c = (c, Inr counts)"
| "persistMessages sessionId (m # ms) (nm, np) c =
     (case dbWrite (messageUpsert sessionId m) c of
        (c', Inl e) \<Rightarrow> (c', Inl e)
      | (c', Inr messageId) \<Rightarrow>
          (case persistParts sessionId messageId (m_parts m) np c' of
             (c'', Inl e) \<Rightarrow> (c'', Inl e)
           | (c'', Inr np') \<Rightarrow> persistMessages sessionId ms (Suc nm, np') c''))"

fun persistLoop ::
  "nat \<Rightarrow> nat \<Rightarrow> string \<Rightarrow> date \<Rightarrow> IngestSessionInput list \<Rightarrow> nat \<times> nat \<times> nat \<Rightarrow> content
     \<Rightarrow> content \<times> (exn + nat \<times> nat \<times> nat)" where
  "persistLoop sourceToolId workspaceId importSource now [] counts c = (c, Inr counts)"
| "persistLoop sourceToolId workspaceId importSource now (s # ss) (ns, nm, np) c =
     (if s_externalSessionId s = [] \<or> s_messages s = []
      then persistLoop sourceToolId workspaceId importSource now ss (ns, nm, np) c
      else
        (case dbWrite (sessionUpsert sourceToolId workspaceId importSource now s) c of
           (c', Inl e) \<Rightarrow> (c', Inl e)
         | (c', Inr sessionId) \<Rightarrow>
             (case persistMessages sessionId (s_messages s) (nm, np) c' of
                (c'', Inl e) \<Rightarrow> (c'', Inl e)
              | (c'', Inr (nm', np')) \<Rightarrow>
                  persistLoop sourceToolId workspaceId importSource now ss (Suc ns, nm', np') c'')))"

definition persistSessions ::
  "nat \<Rightarrow> nat \<Rightarrow> string \<Rightarrow> date \<Rightarrow> IngestSessionInput list \<Rightarrow> date option \<Rightarrow> content
     \<Rightarrow> content \<times> (exn + SourceRunResult)" where
  "persistSessions sourceToolId workspaceId importSource now sessions maxTimestamp c =
     (case persistLoop sourceToolId workspaceId importSource now sessions (0, 0, 0) c of
        (c', Inl e) \<Rightarrow> (c', Inl e)
      | (c', Inr (ns, nm, np)) \<Rightarrow>
          (c', Inr \<lparr>rr_scannedSessions = length sessions, rr_upsertedSessions = ns,
                    rr_upsertedMessages = nm, rr_upsertedParts = np,
                    rr_maxTimestamp = maxTimestamp, rr_note = None\<rparr>))"

section \<open>Sources, runs and checkpoints\<close>

text \<open>
  The source types that the pipeline names are \<^verbatim>\<open>CLAUDE\<close> and \<^verbatim>\<open>OPENCODE\<close>;
  \<open>UNSUPPORTED t\<close> is any other member \<open>t\<close> of the enumeration.
\<close>

datatype IngestionSourceType = CLAUDE | OPENCODE | UNSUPPORTED string

datatype IngestionRunStatus = RUNNING | SUCCESS | FAILED

datatype IngestionMode = backfill | poll

record IngestionSource =
  src_id :: nat
  src_key :: string
  src_type :: IngestionSourceType
  src_name :: string
  src_rootPath :: "string option"
  src_dbPath :: "string option"
  src_lookbackDays :: int
  src_pollIntervalSec :: int
  src_isEnabled :: bool
  src_createdAt :: date
  src_lastRunAt :: "date option"
  src_lastSuccessAt :: "date option"
  src_lastErrorAt :: "date option"
  src_statusMessage :: "string option"

text \<open>A column that a run was not given yet holds \<open>None\<close>.\<close>

record IngestionRun =
  run_id :: nat
  run_sourceId :: nat
  run_mode :: IngestionMode
  run_status :: IngestionRunStatus
  run_finishedAt :: "date option"
  run_scannedSessions :: "nat option"
  run_upsertedSessions :: "nat option"
  run_upsertedMessages :: "nat option"
  run_upsertedParts :: "nat option"
  run_errorCount :: "nat option"
  run_note :: "string option"

record IngestionError =
  err_id :: nat
  err_sourceId :: nat
  err_runId :: nat
  err_code :: string
  err_message :: string

text \<open>
  The tables of the orchestrator. A checkpoint is keyed by source and cursor key. The
  writes of the orchestrator to these tables are taken to succeed.
\<close>

record bookkeeping =
  bk_sources :: "IngestionSource list"
  bk_runs :: "IngestionRun list"
  bk_errors :: "IngestionError list"
  bk_checkpoints :: "nat \<times> string \<Rightarrow> string option"
  bk_nextId :: nat

definition getCheckpoint :: "bookkeeping \<Rightarrow> nat \<Rightarrow> string \<Rightarrow> string option" where
  "getCheckpoint bk sourceId cursorKey = bk_checkpoints bk (sourceId, cursorKey)"

definition setCheckpoint :: "nat \<Rightarrow> string \<Rightarrow> string \<Rightarrow> bookkeeping \<Rightarrow> bookkeeping" where
  "setCheckpoint sourceId cursorKey cursorValue bk =
     bk\<lparr>bk_checkpoints := (bk_checkpoints bk)((sourceId, cursorKey) \<mapsto> cursorValue)\<rparr>"

section \<open>The scan window and the order of messages\<close>

text \<open>
  \<^verbatim>\<open>lastCheckpoint && new Date(lastCheckpoint) > lookbackStart ? new Date(lastCheckpoint)
  : lookbackStart\<close>; a comparison with the invalid date is false.
\<close>

definition scanSince :: "env \<Rightarrow> string option \<Rightarrow> date \<Rightarrow> int \<Rightarrow> date" where
  "scanSince env lastCheckpoint now lookbackDays =
     (let lookbackStart = now - lookbackDays * 24 * 60 * 60 * 1000
      in if truthy lastCheckpoint then
           (case e_parseDate env (the lastCheckpoint) of
              Some t \<Rightarrow> if t > lookbackStart then t else lookbackStart
            | None \<Rightarrow> lookbackStart)
         else lookbackStart)"

text \<open>\<^verbatim>\<open>message.sourceTimestamp?.getTime() ?? 0\<close>.\<close>

definition timeKey :: "IngestMessageInput \<Rightarrow> int" where
  "timeKey m = (case m_sourceTimestamp m of Some t \<Rightarrow> t | None \<Rightarrow> 0)"

text \<open>\<^verbatim>\<open>messages.forEach((message, index) => { message.ordinal = index })\<close>.\<close>

definition renumber :: "IngestMessageInput list \<Rightarrow> IngestMessageInput list" where
  "renumber ms = map (\<lambda>(index, m). m\<lparr>m_ordinal := index\<rparr>) (zip [0 ..< length ms] ms)"

text \<open>The stable sort by time of \<^verbatim>\<open>Array.prototype.sort\<close>, then the numbering.\<close>

definition orderMessages :: "IngestMessageInput list \<Rightarrow> IngestMessageInput list" where
  "orderMessages ms = renumber (sort_key timeKey ms)"

definition orderSession :: "IngestSessionInput \<Rightarrow> IngestSessionInput" where
  "orderSession s = s\<lparr>s_messages := orderMessages (s_messages s)\<rparr>"

text \<open>\<^verbatim>\<open>if (t && (!max || t > max)) max = t\<close>.\<close>

fun updMax :: "date option \<Rightarrow> date option \<Rightarrow> date option" where
  "updMax None m = m"
| "updMax (Some t) None = Some t"
| "updMax (Some t) (Some m) = (if t > m then Some t else Some m)"

fun updMin :: "date option \<Rightarrow> date option \<Rightarrow> date option" where
  "updMin None m = m"
| "updMin (Some t) None = Some t"
| "updMin (Some t) (Some m) = (if t < m then Some t else Some m)"

text \<open>\<^verbatim>\<open>t && t < since\<close>.\<close>

fun before :: "date option \<Rightarrow> date \<Rightarrow> bool" where
  "before None since = False"
| "before (Some t) since = (t < since)"

section \<open>The line-delimited JSON adapter\<close>

text \<open>The map from session identifier to session, in the order of insertion, and the latest time seen.\<close>

record claudeScan =
  cs_sessions :: "(string \<times> IngestSessionInput) list"
  cs_maxTimestamp :: "date option"

definition claudeTouch ::
  "date option \<Rightarrow> string option \<Rightarrow> IngestMessageInput \<Rightarrow> IngestSessionInput \<Rightarrow> IngestSessionInput" where
  "claudeTouch timestamp cwd messageRecord existing =
     existing\<lparr>s_messages := s_messages existing @ [messageRecord],
               s_lastActivityAt := updMax timestamp (s_lastActivityAt existing),
               s_startedAt := updMin timestamp (s_startedAt existing),
               s_sourceSessionPath :=
                 (if truthy (s_sourceSessionPath existing) then s_sourceSessionPath existing
                  else cwd)\<rparr>"

text \<open>
  \<^verbatim>\<open>sessions.get(sessionId)\<close>, then a new session for the message or the message
  added to the session that the map holds.
\<close>

definition claudeAddMessage ::
  "date option \<Rightarrow> string option \<Rightarrow> string \<Rightarrow> IngestMessageInput
     \<Rightarrow> (string \<times> IngestSessionInput) list \<Rightarrow> (string \<times> IngestSessionInput) list" where
  "claudeAddMessage timestamp cwd sid messageRecord sessions =
     (case map_of sessions sid of
        None \<Rightarrow>
          sessions @
            [(sid,
              \<lparr>s_externalSessionId = sid, s_sourceSessionPath = cwd,
               s_title = fallbackSessionTitle (m_content messageRecord) sid,
               s_summary = None, s_startedAt = timestamp, s_endedAt = None,
               s_lastActivityAt = timestamp,
               s_messages = [messageRecord]\<rparr>)]
      | Some existing \<Rightarrow>
          map (\<lambda>(k, s). if k = sid then (k, claudeTouch timestamp cwd messageRecord s) else (k, s))
            sessions)"

text \<open>The body of the loop over the lines, behind \<^verbatim>\<open>JSON.parse\<close>, for a value that is not \<^verbatim>\<open>null\<close>.\<close>

definition claudeEvent :: "env \<Rightarrow> date \<Rightarrow> string \<Rightarrow> json \<Rightarrow> claudeScan \<Rightarrow> claudeScan" where
  "claudeEvent env since filePath parsed scan =
     (let sessionId = toStringValue (getProp parsed ''sessionId'')
      in if \<not> truthy sessionId then scan
         else
           (let timestamp =
                  toDate env
                    (orElse (toStringValue (getProp parsed ''timestamp''))
                       (toStringValue (optProp (getProp parsed ''snapshot'') ''timestamp'')))
            in if before timestamp since then scan
               else
                 (let scan1 = scan\<lparr>cs_maxTimestamp := updMax timestamp (cs_maxTimestamp scan)\<rparr>
                  in case buildClaudeMessage env parsed (the sessionId) filePath of
                       None \<Rightarrow> scan1
                     | Some messageRecord \<Rightarrow>
                         scan1\<lparr>cs_sessions :=
                           claudeAddMessage timestamp (toStringValue (getProp parsed ''cwd''))
                             (the sessionId) messageRecord (cs_sessions scan1)\<rparr>)))"

text \<open>
  The loop over the lines of one file. A line that does not parse is passed over. A line
  that parses to \<^verbatim>\<open>null\<close> makes the read of \<^verbatim>\<open>parsed.sessionId\<close> throw a type error.
\<close>

fun claudeLines :: "env \<Rightarrow> date \<Rightarrow> string \<Rightarrow> string list \<Rightarrow> claudeScan \<Rightarrow> exn + claudeScan" where
  "claudeLines env since filePath [] scan = Inr scan"
| "claudeLines env since filePath (line # lines) scan =
     (case e_jsonParse env line of
        None \<Rightarrow> claudeLines env since filePath lines scan
      | Some parsed \<Rightarrow>
          if parsed = JNull then Inl (Error ''Cannot read properties of null'')
          else claudeLines env since filePath lines (claudeEvent env since filePath parsed scan))"

fun claudeFiles :: "env \<Rightarrow> fs \<Rightarrow> date \<Rightarrow> string list \<Rightarrow> claudeScan \<Rightarrow> exn + claudeScan" where
  "claudeFiles env fs since [] scan = Inr scan"
| "claudeFiles env fs since (filePath # files) scan =
     (case fs_mtime fs filePath of
        Inl e \<Rightarrow> Inl e
      | Inr mtime \<Rightarrow>
          if mtime < since then claudeFiles env fs since files scan
          else
            (case fs_readFile fs filePath of
               Inl e \<Rightarrow> Inl e
             | Inr raw \<Rightarrow>
                 (case claudeLines env since filePath
                         (filter (\<lambda>line. line \<noteq> []) (splitLines [] raw)) scan of
                    Inl e \<Rightarrow> Inl e
                  | Inr scan' \<Rightarrow> claudeFiles env fs since files scan')))"

text \<open>The sessions handed to \<^verbatim>\<open>persistSessions\<close>: each with its messages sorted and numbered.\<close>

definition claudeSessions :: "claudeScan \<Rightarrow> IngestSessionInput list" where
  "claudeSessions scan = map (\<lambda>(k, s). orderSession s) (cs_sessions scan)"

definition claudeScanRoot :: "env \<Rightarrow> fs \<Rightarrow> string option \<Rightarrow> date \<Rightarrow> exn + claudeScan" where
  "claudeScanRoot env fs sourceRootPath since =
     (let claudeRoot = (case sourceRootPath of Some r \<Rightarrow> r | None \<Rightarrow> e_claudeRoot env);
          projectsRoot = pathJoin claudeRoot ''projects'';
          files = listFiles fs projectsRoot (\<lambda>filePath. endsWith filePath ''.jsonl'')
      in claudeFiles env fs since files \<lparr>cs_sessions = [], cs_maxTimestamp = None\<rparr>)"

definition runClaudeSource ::
  "env \<Rightarrow> fs \<Rightarrow> date \<Rightarrow> bookkeeping \<Rightarrow> nat \<Rightarrow> string option \<Rightarrow> int \<Rightarrow> content
     \<Rightarrow> content \<times> (exn + SourceRunResult)" where
  "runClaudeSource env fs now bk sourceId sourceRootPath lookbackDays c =
     (let lastCheckpoint = getCheckpoint bk sourceId ''lastTimestamp'';
          since = scanSince env lastCheckpoint now lookbackDays
      in case claudeScanRoot env fs sourceRootPath since of
           Inl e \<Rightarrow> (c, Inl e)
         | Inr scan \<Rightarrow>
             bindDb (ensureSourceTool ''claude-code'' ''Claude Code'')
               (\<lambda>sourceToolId.
                  bindDb (ensureWorkspace now)
                    (\<lambda>workspaceId.
                       persistSessions sourceToolId workspaceId ''claude-watcher'' now
                         (claudeSessions scan) (cs_maxTimestamp scan)))
               c)"

section \<open>The directory-of-files adapter\<close>

text \<open>
  The tool branch reads \<^verbatim>\<open>state.title\<close> and \<^verbatim>\<open>state.output\<close> as the strings
  that the cast in the source declares them to be.
\<close>

definition extractOpenCodePartText :: "json \<Rightarrow> MessagePartType \<Rightarrow> string option" where
  "extractOpenCodePartText part partType =
     (if partType = P_TEXT \<or> partType = P_REASONING then
        sanitizeIfText (toStringValue (getProp part ''text''))
      else if partType = P_TOOL then
        (let state = getProp part ''state''
         in orElse (toStringValue (optProp state ''title''))
              (orElse (toStringValue (optProp state ''output''))
                 (orElse (toStringValue (getProp part ''tool'')) (Some ''tool call''))))
      else toStringValue (getProp part ''type''))"

definition partStart :: "json \<Rightarrow> int option" where
  "partStart part = toNumberValue (optProp (getProp part ''time'') ''start'')"

definition partStartKey :: "json \<Rightarrow> int" where
  "partStartKey part = (case partStart part of Some n \<Rightarrow> n | None \<Rightarrow> 0)"

definition openCodePart :: "env \<Rightarrow> string \<Rightarrow> nat \<Rightarrow> json \<Rightarrow> IngestMessagePartInput" where
  "openCodePart env messageId index part =
     (let partType = mapOpenCodePartType (toStringValue (getProp part ''type''))
      in \<lparr>p_externalPartId =
             (case toStringValue (getProp part ''id'') of
                Some i \<Rightarrow> i
              | None \<Rightarrow> hashValue env (messageId @ '':part:'' @ showNat index)),
           p_partType = partType,
           p_text = extractOpenCodePartText part partType,
           p_data = toJsonInput (Some part),
           p_sourceTimestamp = toDateFromMs (partStart part),
           p_ordinal = index\<rparr>)"

text \<open>The parts of one message: read, kept when objects, sorted by start time, numbered.\<close>

definition openCodeParts :: "env \<Rightarrow> fs \<Rightarrow> string \<Rightarrow> string \<Rightarrow> IngestMessagePartInput list" where
  "openCodeParts env fs partRoot messageId =
     (let partDir = pathJoin partRoot messageId;
          partFiles = listFiles fs partDir (\<lambda>entryPath. endsWith entryPath ''.json'');
          parsedParts = map (safeReadJson env fs) partFiles;
          sortedParts = sort_key partStartKey (filter isObject parsedParts)
      in map (\<lambda>(index, part). openCodePart env messageId index part)
           (zip [0 ..< length sortedParts] sortedParts))"

text \<open>The texts of the text parts that are not blank, joined by a blank line.\<close>

definition contentFromText :: "IngestMessagePartInput list \<Rightarrow> string" where
  "contentFromText parts =
     joinBlank
       (map (\<lambda>p. the (p_text p))
          (filter (\<lambda>p. truthy (p_text p) \<and> trim (the (p_text p)) \<noteq> [])
             (filter (\<lambda>p. p_partType p = P_TEXT) parts)))"

text \<open>The body of the loop over the message files: the messages so far and the latest time seen.\<close>

definition openCodeMessage ::
  "env \<Rightarrow> fs \<Rightarrow> date \<Rightarrow> string \<Rightarrow> string \<Rightarrow> IngestMessageInput list \<times> date option
     \<Rightarrow> IngestMessageInput list \<times> date option" where
  "openCodeMessage env fs since partRoot messageFilePath acc =
     (let (messageItems, maxTimestamp) = acc;
          messageRecord = safeReadJson env fs messageFilePath
      in if \<not> isObject messageRecord then acc
         else
           (let messageId = toStringValue (getProp messageRecord ''id'')
            in if \<not> truthy messageId then acc
               else
                 (let messageCreated =
                        toDateFromMs (toNumberValue (optProp (getProp messageRecord ''time'') ''created''))
                  in if before messageCreated since then acc
                     else
                       (let maxTimestamp' = updMax messageCreated maxTimestamp;
                            parts = openCodeParts env fs partRoot (the messageId);
                            fromText = contentFromText parts;
                            summaryTitle =
                              toStringValue (optProp (getProp messageRecord ''summary'') ''title'')
                        in if fromText = [] \<and> \<not> truthy summaryTitle then (messageItems, maxTimestamp')
                           else
                             (messageItems @
                                [\<lparr>m_externalMessageId = the messageId,
                                  m_role = mapOpenCodeRole (toStringValue (getProp messageRecord ''role'')),
                                  m_modelProvider =
                                    orElse (toStringValue (getProp messageRecord ''providerID''))
                                      (toStringValue (optProp (getProp messageRecord ''model'') ''providerID'')),
                                  m_modelId =
                                    orElse (toStringValue (getProp messageRecord ''modelID''))
                                      (toStringValue (optProp (getProp messageRecord ''model'') ''modelID'')),
                                  m_content = (if fromText \<noteq> [] then fromText else the summaryTitle),
                                  m_metadata = toJsonInput (Some messageRecord),
                                  m_sourceTimestamp = messageCreated,
                                  m_ordinal = length messageItems,
                                  m_parts = parts\<rparr>],
                              maxTimestamp')))))"

text \<open>
  The session built from a session record that passed the checks of the loop: its messages
  are read, sorted and numbered, and the latest time seen goes on from \<open>maxTimestamp1\<close>.
\<close>

definition openCodeBuildSession ::
  "env \<Rightarrow> fs \<Rightarrow> date \<Rightarrow> string \<Rightarrow> string \<Rightarrow> json \<Rightarrow> string \<Rightarrow> int option \<Rightarrow> date option
     \<Rightarrow> date option \<Rightarrow> IngestSessionInput \<times> date option" where
  "openCodeBuildSession env fs since messageRoot partRoot sessionRecord sessionId createdMs
       lastUpdated maxTimestamp1 =
     (let messageDir = pathJoin messageRoot sessionId;
          messageFiles = listFiles fs messageDir (\<lambda>entryPath. endsWith entryPath ''.json'');
          scanned = fold (openCodeMessage env fs since partRoot) messageFiles ([], maxTimestamp1);
          messageItems = orderMessages (fst scanned);
          sessionTitle =
            (case toStringValue (getProp sessionRecord ''title'') of
               Some t \<Rightarrow> t
             | None \<Rightarrow>
                 fallbackSessionTitle
                   (case messageItems of [] \<Rightarrow> [] | m # _ \<Rightarrow> m_content m) sessionId)
      in (\<lparr>s_externalSessionId = sessionId,
           s_sourceSessionPath = toStringValue (getProp sessionRecord ''directory''),
           s_title = sessionTitle, s_summary = None,
           s_startedAt = toDateFromMs createdMs, s_endedAt = None,
           s_lastActivityAt = lastUpdated,
           s_messages = messageItems\<rparr>,
          snd scanned))"

text \<open>The body of the loop over the session files: the sessions so far and the latest time seen.\<close>

definition openCodeSession ::
  "env \<Rightarrow> fs \<Rightarrow> date \<Rightarrow> string \<Rightarrow> string \<Rightarrow> string \<Rightarrow> IngestSessionInput list \<times> date option
     \<Rightarrow> IngestSessionInput list \<times> date option" where
  "openCodeSession env fs since messageRoot partRoot filePath acc =
     (let sessionRecord = safeReadJson env fs filePath
      in if \<not> isObject sessionRecord then acc
         else
           (let sessionId = toStringValue (getProp sessionRecord ''id'')
            in if \<not> truthy sessionId then acc
               else
                 (let sessionTime = getProp sessionRecord ''time'';
                      updatedMs = toNumberValue (optProp sessionTime ''updated'');
                      createdMs = toNumberValue (optProp sessionTime ''created'');
                      lastUpdated = toDateFromMs (orElse updatedMs createdMs)
                  in if before lastUpdated since then acc
                     else
                       (let built =
                              openCodeBuildSession env fs since messageRoot partRoot sessionRecord
                                (the sessionId) createdMs lastUpdated
                                (updMax lastUpdated (snd acc))
                        in (fst acc @ [fst built], snd built)))))"

definition openCodeScanRoot ::
  "env \<Rightarrow> fs \<Rightarrow> string option \<Rightarrow> date \<Rightarrow> IngestSessionInput list \<times> date option" where
  "openCodeScanRoot env fs sourceRootPath since =
     (let root = (case sourceRootPath of Some r \<Rightarrow> r | None \<Rightarrow> e_opencodeHome env);
          sessionRoot = pathJoin (pathJoin root ''storage'') ''session'';
          messageRoot = pathJoin (pathJoin root ''storage'') ''message'';
          partRoot = pathJoin (pathJoin root ''storage'') ''part'';
          sessionFiles = listFiles fs sessionRoot (\<lambda>filePath. endsWith filePath ''.json'')
      in fold (openCodeSession env fs since messageRoot partRoot) sessionFiles ([], None))"

definition runOpenCodeSource ::
  "env \<Rightarrow> fs \<Rightarrow> date \<Rightarrow> bookkeeping \<Rightarrow> nat \<Rightarrow> string option \<Rightarrow> int \<Rightarrow> content
     \<Rightarrow> content \<times> (exn + SourceRunResult)" where
  "runOpenCodeSource env fs now bk sourceId sourceRootPath lookbackDays c =
     (let lastCheckpoint = getCheckpoint bk sourceId ''lastTimestamp'';
          since = scanSince env lastCheckpoint now lookbackDays;
          (sessions, maxTimestamp) = openCodeScanRoot env fs sourceRootPath since
      in bindDb (ensureSourceTool ''opencode'' ''OpenCode'')
           (\<lambda>sourceToolId.
              bindDb (ensureWorkspace now)
                (\<lambda>workspaceId.
                   persistSessions sourceToolId workspaceId ''opencode-watcher'' now
                     sessions maxTimestamp))
           c)"

section \<open>The orchestrator\<close>

definition ensureDefaultIngestionSources :: "env \<Rightarrow> date \<Rightarrow> bookkeeping \<Rightarrow> bookkeeping" where
  "ensureDefaultIngestionSources env now bk =
     (let (rows1, r1, next1) =
            upsertRow (\<lambda>r. src_key r = ''claude-default'')
              (\<lambda>r. r\<lparr>src_rootPath := Some (e_claudeRoot env),
                     src_lookbackDays := e_lookbackDays env\<rparr>)
              (\<lambda>i. \<lparr>src_id = i, src_key = ''claude-default'', src_type = CLAUDE,
                     src_name = ''Claude default'', src_rootPath = Some (e_claudeRoot env),
                     src_dbPath = None, src_lookbackDays = e_lookbackDays env,
                     src_pollIntervalSec = 30, src_isEnabled = e_enabledDefault env,
                     src_createdAt = now, src_lastRunAt = None, src_lastSuccessAt = None,
                     src_lastErrorAt = None, src_statusMessage = None\<rparr>)
              (bk_nextId bk) (bk_sources bk);
          (rows2, r2, next2) =
            upsertRow (\<lambda>r. src_key r = ''opencode-default'')
              (\<lambda>r. r\<lparr>src_rootPath := Some (e_opencodeHome env),
                     src_dbPath := Some (pathJoin (e_opencodeHome env) ''opencode.db''),
                     src_lookbackDays := e_lookbackDays env\<rparr>)
              (\<lambda>i. \<lparr>src_id = i, src_key = ''opencode-default'', src_type = OPENCODE,
                     src_name = ''OpenCode default'', src_rootPath = Some (e_opencodeHome env),
                     src_dbPath = Some (pathJoin (e_opencodeHome env) ''opencode.db''),
                     src_lookbackDays = e_lookbackDays env,
                     src_pollIntervalSec = 15, src_isEnabled = e_enabledDefault env,
                     src_createdAt = now, src_lastRunAt = None, src_lastSuccessAt = None,
                     src_lastErrorAt = None, src_statusMessage = None\<rparr>)
              next1 rows1
      in bk\<lparr>bk_sources := rows2, bk_nextId := next2\<rparr>)"

fun showMode :: "IngestionMode \<Rightarrow> string" where
  "showMode backfill = ''backfill''"
| "showMode poll = ''poll''"

fun showType :: "IngestionSourceType \<Rightarrow> string" where
  "showType CLAUDE = ''CLAUDE''"
| "showType OPENCODE = ''OPENCODE''"
| "showType (UNSUPPORTED t) = t"

text \<open>\<^verbatim>\<open>error instanceof Error ? error.message : "Unknown ingestion failure"\<close>.\<close>

fun errorMessage :: "exn \<Rightarrow> string" where
  "errorMessage (Error m) = m"
| "errorMessage NonError = ''Unknown ingestion failure''"

definition updateSource :: "nat \<Rightarrow> (IngestionSource \<Rightarrow> IngestionSource) \<Rightarrow> bookkeeping \<Rightarrow> bookkeeping" where
  "updateSource sourceId upd bk =
     bk\<lparr>bk_sources := map (\<lambda>r. if src_id r = sourceId then upd r else r) (bk_sources bk)\<rparr>"

definition updateRun :: "nat \<Rightarrow> (IngestionRun \<Rightarrow> IngestionRun) \<Rightarrow> bookkeeping \<Rightarrow> bookkeeping" where
  "updateRun runId upd bk =
     bk\<lparr>bk_runs := map (\<lambda>r. if run_id r = runId then upd r else r) (bk_runs bk)\<rparr>"

text \<open>The body of the \<^verbatim>\<open>try\<close> up to the result of the adapter.\<close>

definition sourceAdapter ::
  "env \<Rightarrow> fs \<Rightarrow> date \<Rightarrow> bookkeeping \<Rightarrow> IngestionSource \<Rightarrow> content
     \<Rightarrow> content \<times> (exn + SourceRunResult)" where
  "sourceAdapter env fs now bk source c =
     (case src_type source of
        UNSUPPORTED t \<Rightarrow> (c, Inl (Error (''Unsupported ingestion source type: '' @ t)))
      | CLAUDE \<Rightarrow>
          runClaudeSource env fs now bk (src_id source) (src_rootPath source)
            (src_lookbackDays source) c
      | OPENCODE \<Rightarrow>
          runOpenCodeSource env fs now bk (src_id source) (src_rootPath source)
            (src_lookbackDays source) c)"

text \<open>
  The body of the loop of \<^verbatim>\<open>runIngestionCycle\<close> over the sources, in its three
  blocks: the run record and the status of the source before the \<^verbatim>\<open>try\<close>, the
  writes behind a result of the adapter, and the \<^verbatim>\<open>catch\<close> block.
\<close>

definition startRun :: "IngestionMode \<Rightarrow> date \<Rightarrow> IngestionSource \<Rightarrow> bookkeeping \<Rightarrow> bookkeeping" where
  "startRun mode now source bk =
     updateSource (src_id source)
       (\<lambda>r. r\<lparr>src_lastRunAt := Some now,
              src_statusMessage := Some (''Running '' @ showMode mode @ ''...'')\<rparr>)
       (bk\<lparr>bk_runs := bk_runs bk @
              [\<lparr>run_id = bk_nextId bk, run_sourceId = src_id source, run_mode = mode,
                run_status = RUNNING, run_finishedAt = None, run_scannedSessions = None,
                run_upsertedSessions = None, run_upsertedMessages = None,
                run_upsertedParts = None, run_errorCount = None, run_note = None\<rparr>],
            bk_nextId := Suc (bk_nextId bk)\<rparr>)"

definition successMessage :: "SourceRunResult \<Rightarrow> string" where
  "successMessage result =
     (case rr_note result of
        Some n \<Rightarrow> n
      | None \<Rightarrow>
          ''Success: '' @ showNat (rr_upsertedSessions result) @ '' sessions, ''
          @ showNat (rr_upsertedMessages result) @ '' messages'')"

definition recordSuccess ::
  "env \<Rightarrow> date \<Rightarrow> IngestionSource \<Rightarrow> nat \<Rightarrow> SourceRunResult \<Rightarrow> bookkeeping \<Rightarrow> bookkeeping" where
  "recordSuccess env now source runId result bk =
     (let bk3 = updateRun runId
                  (\<lambda>r. r\<lparr>run_status := SUCCESS, run_finishedAt := Some now,
                         run_scannedSessions := Some (rr_scannedSessions result),
                         run_upsertedSessions := Some (rr_upsertedSessions result),
                         run_upsertedMessages := Some (rr_upsertedMessages result),
                         run_upsertedParts := Some (rr_upsertedParts result),
                         run_note := setOpt (rr_note result) (run_note r)\<rparr>) bk;
          bk4 = updateSource (src_id source)
                  (\<lambda>r. r\<lparr>src_lastSuccessAt := Some now,
                         src_statusMessage := Some (successMessage result)\<rparr>) bk3
      in case rr_maxTimestamp result of
           Some t \<Rightarrow> setCheckpoint (src_id source) ''lastTimestamp'' (e_toISOString env t) bk4
         | None \<Rightarrow> bk4)"

definition recordFailure ::
  "date \<Rightarrow> IngestionSource \<Rightarrow> nat \<Rightarrow> exn \<Rightarrow> bookkeeping \<Rightarrow> bookkeeping" where
  "recordFailure now source runId error bk =
     (let message = errorMessage error;
          bk3 = updateRun runId
                  (\<lambda>r. r\<lparr>run_status := FAILED, run_finishedAt := Some now,
                         run_errorCount := Some 1, run_note := Some message\<rparr>) bk;
          bk4 = bk3\<lparr>bk_errors := bk_errors bk3 @
                  [\<lparr>err_id = bk_nextId bk3, err_sourceId = src_id source,
                    err_runId = runId, err_code = ''INGESTION_FAILURE'',
                    err_message = message\<rparr>],
                bk_nextId := Suc (bk_nextId bk3)\<rparr>
      in updateSource (src_id source)
           (\<lambda>r. r\<lparr>src_lastErrorAt := Some now, src_statusMessage := Some message\<rparr>) bk4)"

definition runSource ::
  "env \<Rightarrow> fs \<Rightarrow> IngestionMode \<Rightarrow> date \<Rightarrow> IngestionSource \<Rightarrow> bookkeeping \<times> content
     \<Rightarrow> bookkeeping \<times> content" where
  "runSource env fs mode now source st =
     (let runId = bk_nextId (fst st);
          bk2 = startRun mode now source (fst st)
      in case sourceAdapter env fs now bk2 source (snd st) of
           (c', Inr result) \<Rightarrow> (recordSuccess env now source runId result bk2, c')
         | (c', Inl error) \<Rightarrow> (recordFailure now source runId error bk2, c'))"


definition runSources ::
  "env \<Rightarrow> fs \<Rightarrow> IngestionMode \<Rightarrow> date \<Rightarrow> IngestionSource list \<Rightarrow> bookkeeping \<times> content
     \<Rightarrow> bookkeeping \<times> content" where
  "runSources env fs mode now sources st = fold (runSource env fs mode now) sources st"


section \<open>The canonical bundle entry point\<close>









































section \<open>The watcher process\<close>

text \<open>
  \<^verbatim>\<open>main\<close> of the watcher awaits a first cycle, then installs the poll timer and the
  signal handlers. The state is the phase of the process and the number of cycles in
  progress; an event is a fire of the timer, the end of a cycle in progress, or a
  termination signal.
\<close>

datatype phase = FirstTick | Polling | Exited

record watcher =
  w_phase :: phase
  w_running :: nat

datatype event = TimerFires | CycleEnds | Signal

definition watcherStart :: watcher where
  "watcherStart = \<lparr>w_phase = FirstTick, w_running = 1\<rparr>"

fun watcherStep :: "watcher \<Rightarrow> event \<Rightarrow> watcher" where
  "watcherStep w TimerFires =
     (if w_phase w = Polling then w\<lparr>w_running := Suc (w_running w)\<rparr> else w)"
| "watcherStep w CycleEnds =
     (if w_phase w = FirstTick then \<lparr>w_phase = Polling, w_running = 0\<rparr>
      else if w_phase w = Polling \<and> 0 < w_running w then w\<lparr>w_running := w_running w - 1\<rparr>
      else w)"
| "watcherStep w Signal =
     (if w_phase w = Exited then w else \<lparr>w_phase = Exited, w_running = 0\<rparr>)"

definition watcherRun :: "event list \<Rightarrow> watcher" where
  "watcherRun events = foldl watcherStep watcherStart events"

section \<open>Concrete inputs: a small installation\<close>













section \<open>Auxiliary facts on strings\<close>

lemma trim_Nil [simp]: "trim [] = []"
  by (simp add: trim_def)

lemma cleanText_Nil [simp]: "cleanText [] = []"
  by (simp add: cleanText_def sanitizeImportedText_def collapse_ws_def)

section \<open>Auxiliary facts on the orchestrator\<close>

text \<open>An adapter reads the bookkeeping tables for the checkpoint only.\<close>

lemma sourceAdapter_checkpoints:
  assumes "bk_checkpoints bk' = bk_checkpoints bk"
  shows "sourceAdapter env fs now bk' source c = sourceAdapter env fs now bk source c"
  using assms
  by (simp add: sourceAdapter_def runClaudeSource_def runOpenCodeSource_def getCheckpoint_def
      split: IngestionSourceType.splits)

lemma startRun_checkpoints [simp]:
  "bk_checkpoints (startRun mode now source bk) = bk_checkpoints bk"
  by (simp add: startRun_def updateSource_def)

lemma sourceAdapter_startRun:
  "sourceAdapter env fs now (startRun mode now source bk) source c
     = sourceAdapter env fs now bk source c"
  by (rule sourceAdapter_checkpoints) simp


lemma runSource_content:
  "snd (runSource env fs mode now source (bk, c)) = fst (sourceAdapter env fs now bk source c)"
  by (simp add: runSource_def sourceAdapter_startRun Let_def split: prod.splits sum.splits)

lemma runSources_Nil [simp]: "runSources env fs mode now [] st = st"
  by (simp add: runSources_def)

lemma runSources_Cons [simp]:
  "runSources env fs mode now (s # ss) st
     = runSources env fs mode now ss (runSource env fs mode now s st)"
  by (simp add: runSources_def)


section \<open>Auxiliary facts on the persistence path\<close>

text \<open>
  The index of a table: the natural key and the identifier of each row, in the order of
  the rows.
\<close>

definition sessionIndex :: "content \<Rightarrow> ((nat \<times> string option) \<times> nat) list" where
  "sessionIndex c = map (\<lambda>r. ((sr_sourceToolId r, sr_externalSessionId r), sr_id r)) (ct_sessions c)"

definition messageIndex :: "content \<Rightarrow> ((nat \<times> string option) \<times> nat) list" where
  "messageIndex c = map (\<lambda>r. ((mr_sessionId r, mr_externalMessageId r), mr_id r)) (ct_messages c)"

definition partIndex :: "content \<Rightarrow> ((nat \<times> string) \<times> nat) list" where
  "partIndex c = map (\<lambda>r. ((pr_messageId r, pr_externalPartId r), pr_id r)) (ct_parts c)"

lemma index_fault [simp]:
  "sessionIndex (c\<lparr>ct_fault := f\<rparr>) = sessionIndex c"
  "messageIndex (c\<lparr>ct_fault := f\<rparr>) = messageIndex c"
  "partIndex (c\<lparr>ct_fault := f\<rparr>) = partIndex c"
  by (simp_all add: sessionIndex_def messageIndex_def partIndex_def)







text \<open>
  \<open>extends c c'\<close>: the indices of \<open>c'\<close> are those of \<open>c\<close> with rows added behind; no
  row is gone and none has changed its key or its identifier.
\<close>

definition extends :: "content \<Rightarrow> content \<Rightarrow> bool" where
  "extends c c' =
     ((\<exists>a. sessionIndex c' = sessionIndex c @ a) \<and> (\<exists>b. messageIndex c' = messageIndex c @ b)
      \<and> (\<exists>d. partIndex c' = partIndex c @ d)
      \<and> ct_tools c' = ct_tools c \<and> ct_workspaces c' = ct_workspaces c)"

definition sameIndex :: "content \<Rightarrow> content \<Rightarrow> bool" where
  "sameIndex c c' =
     (sessionIndex c' = sessionIndex c \<and> messageIndex c' = messageIndex c
      \<and> partIndex c' = partIndex c \<and> ct_nextId c' = ct_nextId c)"

lemma extends_refl [simp]: "extends c c"
  by (simp add: extends_def)


lemma sameIndex_refl [simp]: "sameIndex c c"
  by (simp add: sameIndex_def)


lemma extends_fault [simp]: "extends (c\<lparr>ct_fault := f\<rparr>) c' = extends c c'"
  by (simp add: extends_def)

lemma sameIndex_fault [simp]: "sameIndex (c\<lparr>ct_fault := f\<rparr>) c' = sameIndex c c'"
  by (simp add: sameIndex_def)

lemma map_of_added: "map_of (xs @ [(k, v)]) k \<noteq> None"
  by (simp add: map_add_def split: option.splits)


text \<open>
  The outcome of a write through the database: rejected with the store untouched, or
  accepted with the fault counted down.
\<close>

definition faultAfter :: "content \<Rightarrow> content \<Rightarrow> (exn + 'a) \<Rightarrow> bool" where
  "faultAfter c c' out =
     ((\<forall>e. out = Inl e \<longrightarrow> ct_fault c' = Some (0, e))
      \<and> (ct_fault c = None \<longrightarrow> ct_fault c' = None \<and> (\<exists>x. out = Inr x)))"




lemma faultAfter_refl [simp]: "faultAfter c c (Inr x)"
  by (simp add: faultAfter_def)


lemma faultAfter_Inl: "faultAfter c c' (Inl e) \<Longrightarrow> faultAfter c c' (Inl e :: exn + 'b)"
  by (auto simp: faultAfter_def)

section \<open>The loops only add rows\<close>





section \<open>Keys that the store already resolves\<close>








section \<open>A run that succeeds covers its input\<close>




section \<open>A run over covered input creates nothing\<close>







section \<open>Properties of the summary\<close>

lemma find_first_index:
  "find P xs = Some x \<Longrightarrow> \<exists>i<length xs. x = xs ! i \<and> P (xs ! i) \<and> (\<forall>j<i. \<not> P (xs ! j))"
  by (auto simp: find_Some_iff)

lemma bestMessage_assistant:
  assumes "\<exists>m\<in>set ms. m_role m = ASSISTANT"
  shows "\<exists>i<length ms. bestMessage ms = Some (ms ! i) \<and> m_role (ms ! i) = ASSISTANT
           \<and> (\<forall>j<i. m_role (ms ! j) \<noteq> ASSISTANT)"
proof -
  from assms obtain x where x: "find (\<lambda>m. m_role m = ASSISTANT) ms = Some x"
    by (cases "find (\<lambda>m. m_role m = ASSISTANT) ms") (auto simp: find_None_iff)
  from find_first_index [OF x] show ?thesis
    by (auto simp: bestMessage_def x)
qed

lemma bestMessage_user:
  assumes "\<forall>m\<in>set ms. m_role m \<noteq> ASSISTANT" and "\<exists>m\<in>set ms. m_role m = USER"
  shows "\<exists>i<length ms. bestMessage ms = Some (ms ! i) \<and> m_role (ms ! i) = USER
           \<and> (\<forall>j<i. m_role (ms ! j) \<noteq> USER)"
proof -
  from assms(1) have n: "find (\<lambda>m. m_role m = ASSISTANT) ms = None"
    by (simp add: find_None_iff)
  from assms(2) obtain x where x: "find (\<lambda>m. m_role m = USER) ms = Some x"
    by (cases "find (\<lambda>m. m_role m = USER) ms") (auto simp: find_None_iff)
  from find_first_index [OF x] show ?thesis
    by (auto simp: bestMessage_def x n)
qed

lemma bestMessage_first:
  assumes "\<forall>m\<in>set ms. m_role m \<noteq> ASSISTANT \<and> m_role m \<noteq> USER"
  shows "bestMessage ms = (case ms of [] \<Rightarrow> None | m # _ \<Rightarrow> Some m)"
proof -
  from assms have "find (\<lambda>m. m_role m = ASSISTANT) ms = None"
    and "find (\<lambda>m. m_role m = USER) ms = None"
    by (simp_all add: find_None_iff)
  then show ?thesis by (simp add: bestMessage_def)
qed

lemma bestMessage_None: "bestMessage ms = None \<longleftrightarrow> ms = []"
  by (cases ms) (auto simp: bestMessage_def split: option.splits)

lemma deriveSessionSummary_None:
  "deriveSessionSummary ms = None \<longleftrightarrow>
     (ms = [] \<or> (\<exists>b. bestMessage ms = Some b \<and> cleanText (m_content b) = []))"
proof (cases "bestMessage ms")
  case None
  then have "ms = []" by (simp add: bestMessage_None)
  with None show ?thesis by (simp add: deriveSessionSummary_def)
next
  case (Some b)
  then have "ms \<noteq> []" using bestMessage_None [of ms] by auto
  with Some show ?thesis
    by (auto simp: deriveSessionSummary_def Let_def)
qed

lemma deriveSessionSummary_long:
  assumes "bestMessage ms = Some b" and "180 < length (cleanText (m_content b))"
  shows "\<exists>r. deriveSessionSummary ms = Some r \<and> length r = 180
           \<and> take 177 r = take 177 (cleanText (m_content b)) \<and> drop 177 r = ''...''"
proof -
  from assms(2) have "m_content b \<noteq> []" by auto
  with assms show ?thesis
    by (auto simp: deriveSessionSummary_def Let_def)
qed

lemma deriveSessionSummary_short:
  assumes "bestMessage ms = Some b" and "cleanText (m_content b) \<noteq> []"
    and "length (cleanText (m_content b)) \<le> 180"
  shows "deriveSessionSummary ms = Some (cleanText (m_content b))"
proof -
  from assms(2) have "m_content b \<noteq> []" by auto
  with assms show ?thesis
    by (auto simp: deriveSessionSummary_def Let_def)
qed

text \<open>
  Claim C9. \<^const>\<open>deriveSessionSummary\<close> takes the first message of role assistant, else
  the first of role user, else the first message. It returns nothing when the list is
  empty or when the content of that message is empty once sanitised and collapsed.
  Otherwise it returns the cleaned content: cut to 177 characters followed by three dots
  (180 characters in all) when the cleaned content is longer than 180 characters, and
  unchanged when it has 180 characters or fewer.
\<close>

theorem deriveSessionSummary_spec:
  "((\<exists>m\<in>set ms. m_role m = ASSISTANT) \<longrightarrow>
      (\<exists>i<length ms. bestMessage ms = Some (ms ! i) \<and> m_role (ms ! i) = ASSISTANT
         \<and> (\<forall>j<i. m_role (ms ! j) \<noteq> ASSISTANT)))
   \<and> ((\<forall>m\<in>set ms. m_role m \<noteq> ASSISTANT) \<and> (\<exists>m\<in>set ms. m_role m = USER) \<longrightarrow>
      (\<exists>i<length ms. bestMessage ms = Some (ms ! i) \<and> m_role (ms ! i) = USER
         \<and> (\<forall>j<i. m_role (ms ! j) \<noteq> USER)))
   \<and> ((\<forall>m\<in>set ms. m_role m \<noteq> ASSISTANT \<and> m_role m \<noteq> USER) \<longrightarrow>
      bestMessage ms = (case ms of [] \<Rightarrow> None | m # _ \<Rightarrow> Some m))
   \<and> (deriveSessionSummary ms = None \<longleftrightarrow>
        (ms = [] \<or> (\<exists>b. bestMessage ms = Some b \<and> cleanText (m_content b) = [])))
   \<and> (\<forall>b. bestMessage ms = Some b \<and> 180 < length (cleanText (m_content b)) \<longrightarrow>
        (\<exists>r. deriveSessionSummary ms = Some r \<and> length r = 180
           \<and> take 177 r = take 177 (cleanText (m_content b)) \<and> drop 177 r = ''...''))
   \<and> (\<forall>b. bestMessage ms = Some b \<and> cleanText (m_content b) \<noteq> []
          \<and> length (cleanText (m_content b)) \<le> 180 \<longrightarrow>
        deriveSessionSummary ms = Some (cleanText (m_content b)))"
  using bestMessage_assistant [of ms] bestMessage_user [of ms] bestMessage_first [of ms]
    deriveSessionSummary_None [of ms] deriveSessionSummary_long [of ms]
    deriveSessionSummary_short [of ms]
  by blast

theorem deriveSessionSummary_spec_witness:
  "(\<exists>m\<in>set [mkMessage USER ''What is it?'', mkMessage ASSISTANT ''A typed  superset.'']. m_role m = ASSISTANT)
   \<and> deriveSessionSummary [mkMessage USER ''What is it?'', mkMessage ASSISTANT ''A typed  superset.'']
       = Some ''A typed superset.''
   \<and> bestMessage [mkMessage USER (replicate 200 (CHR ''x''))] = Some (mkMessage USER (replicate 200 (CHR ''x'')))
   \<and> 180 < length (cleanText (m_content (mkMessage USER (replicate 200 (CHR ''x'')))))
   \<and> (\<exists>r. deriveSessionSummary [mkMessage USER (replicate 200 (CHR ''x''))] = Some r
          \<and> length r = 180 \<and> drop 177 r = ''...'')
   \<and> deriveSessionSummary [mkMessage USER (replicate 180 (CHR ''y''))] = Some (replicate 180 (CHR ''y''))
   \<and> deriveSessionSummary [mkMessage TOOL ''<system-reminder>x</system-reminder>''] = None"
proof -
  let ?a = "[mkMessage USER ''What is it?'', mkMessage ASSISTANT ''A typed  superset.'']"
  let ?x = "mkMessage USER (replicate 200 (CHR ''x''))"
  let ?y = "mkMessage USER (replicate 180 (CHR ''y''))"
  let ?t = "mkMessage TOOL ''<system-reminder>x</system-reminder>''"
  have a1: "\<exists>m\<in>set ?a. m_role m = ASSISTANT"
    by (simp add: mkMessage_def)
  have a2: "cleanText ''A typed  superset.'' = ''A typed superset.''"
    by code_simp
  from a1 deriveSessionSummary_spec [of ?a]
  obtain i where i: "i < length ?a" "bestMessage ?a = Some (?a ! i)" "m_role (?a ! i) = ASSISTANT"
    by blast
  from i(1,3) have "i = 1"
    by (cases i) (simp_all add: mkMessage_def)
  with i(2) have a3: "bestMessage ?a = Some (mkMessage ASSISTANT ''A typed  superset.'')"
    by simp
  have a4: "deriveSessionSummary ?a = Some ''A typed superset.''"
    using deriveSessionSummary_spec [of ?a] a3 a2 by (simp add: mkMessage_def)
  have x1: "bestMessage [?x] = Some ?x"
    using deriveSessionSummary_spec [of "[?x]"] by (simp add: mkMessage_def)
  have x2: "180 < length (cleanText (m_content ?x))"
    by code_simp
  from x1 x2 deriveSessionSummary_spec [of "[?x]"]
  have x3: "\<exists>r. deriveSessionSummary [?x] = Some r \<and> length r = 180 \<and> drop 177 r = ''...''"
    by blast
  have y1: "bestMessage [?y] = Some ?y"
    using deriveSessionSummary_spec [of "[?y]"] by (simp add: mkMessage_def)
  have y2: "cleanText (m_content ?y) = replicate 180 (CHR ''y'')"
    by code_simp
  have y3: "deriveSessionSummary [?y] = Some (replicate 180 (CHR ''y''))"
    using deriveSessionSummary_spec [of "[?y]"] y1 y2 by simp
  have t1: "bestMessage [?t] = Some ?t"
    using deriveSessionSummary_spec [of "[?t]"] by (simp add: mkMessage_def)
  have t2: "cleanText (m_content ?t) = []"
    by code_simp
  have t3: "deriveSessionSummary [?t] = None"
    using deriveSessionSummary_spec [of "[?t]"] t1 t2 by simp
  from a1 a4 x1 x2 x3 y3 t3 show ?thesis by blast
qed

section \<open>Properties of the transcript parser\<close>

lemma trim_prefix: "\<exists>zs. dropWhile is_space s = trim s @ zs"
proof -
  let ?y = "dropWhile is_space s"
  have "rev (takeWhile is_space (rev ?y) @ dropWhile is_space (rev ?y)) = rev (rev ?y)"
    by (simp only: takeWhile_dropWhile_id)
  then have "rev (dropWhile is_space (rev ?y)) @ rev (takeWhile is_space (rev ?y)) = ?y"
    by (simp only: rev_append rev_rev_ident)
  then have "?y = trim s @ rev (takeWhile is_space (rev ?y))"
    by (simp only: trim_def)
  then show ?thesis by blast
qed

lemma trim_hd_not_space:
  assumes "trim s \<noteq> []"
  shows "\<not> is_space (hd (trim s))"
proof -
  obtain zs where zs: "dropWhile is_space s = trim s @ zs"
    using trim_prefix by blast
  with assms have ne: "dropWhile is_space s \<noteq> []" by auto
  from zs assms have "hd (trim s) = hd (dropWhile is_space s)" by simp
  with ne show ?thesis by (simp add: hd_dropWhile)
qed

lemma trim_Cons_nonempty:
  assumes "\<not> is_space a"
  shows "trim (a # w) \<noteq> []"
proof -
  have "dropWhile is_space (rev w @ [a]) \<noteq> []"
    using assms by (simp add: dropWhile_eq_Nil_conv)
  with assms show ?thesis by (simp add: trim_def)
qed

lemma hd_splitLines: "hd (splitLines cur s) = cur @ takeWhile (\<lambda>c. c \<noteq> LF) s"
  by (induction s arbitrary: cur) simp_all

lemma firstLine_nonempty:
  assumes "chunk = trim x" and "chunk \<noteq> []"
  shows "trim (hd (splitLines [] chunk)) \<noteq> []"
proof -
  from assms(2) obtain a w where aw: "chunk = a # w" by (cases chunk) auto
  from assms have "\<not> is_space (hd chunk)" using trim_hd_not_space [of x] by simp
  with aw have a: "\<not> is_space a" by simp
  then have "a \<noteq> LF" by (auto simp: is_space_def)
  then have "hd (splitLines [] chunk) = a # takeWhile (\<lambda>c. c \<noteq> LF) w"
    by (simp add: hd_splitLines aw)
  with a show ?thesis by (simp add: trim_Cons_nonempty)
qed

lemma transcriptChunks_trimmed:
  assumes "chunk \<in> set (transcriptChunks raw)"
  shows "\<exists>x. chunk = trim x \<and> chunk \<noteq> []"
  using assms by (auto simp: transcriptChunks_def)

lemma parseChunk_defined:
  assumes "chunk \<in> set (transcriptChunks raw)"
  shows "parseChunk index chunk \<noteq> None"
proof -
  from transcriptChunks_trimmed [OF assms] obtain x where "chunk = trim x" "chunk \<noteq> []"
    by blast
  then have "trim (hd (splitLines [] chunk)) \<noteq> []" by (rule firstLine_nonempty)
  then show ?thesis
    by (simp add: parseChunk_def Let_def split: option.splits)
qed

lemma parseChunk_unlabelled:
  assumes "chunk \<in> set (transcriptChunks raw)" and "unlabelled chunk"
  shows "parseChunk index chunk
           = Some \<lparr>role = (if even index then user else assistant), content = chunk\<rparr>"
proof -
  from transcriptChunks_trimmed [OF assms(1)] obtain x where "chunk = trim x" "chunk \<noteq> []"
    by blast
  then have "trim (hd (splitLines [] chunk)) \<noteq> []" by (rule firstLine_nonempty)
  with assms(2) show ?thesis
    by (simp add: parseChunk_def unlabelled_def Let_def even_iff_mod_2_eq_zero)
qed

lemma map_filter_all_defined:
  assumes "\<forall>x\<in>set xs. f x \<noteq> None"
  shows "List.map_filter f xs = map (\<lambda>x. the (f x)) xs"
  using assms by (induction xs) (auto simp: map_filter_simps)

lemma parseTranscript_map:
  "parseTranscript raw
     = map (\<lambda>(index, chunk). the (parseChunk index chunk))
         (zip [0 ..< length (transcriptChunks raw)] (transcriptChunks raw))"
proof -
  let ?cs = "transcriptChunks raw"
  have "\<forall>p\<in>set (zip [0 ..< length ?cs] ?cs). (\<lambda>(index, chunk). parseChunk index chunk) p \<noteq> None"
  proof
    fix p
    assume p: "p \<in> set (zip [0 ..< length ?cs] ?cs)"
    obtain index chunk where ic: "p = (index, chunk)" by (cases p)
    with p have "chunk \<in> set ?cs" by (auto dest: set_zip_rightD)
    then show "(\<lambda>(index, chunk). parseChunk index chunk) p \<noteq> None"
      by (simp add: ic parseChunk_defined)
  qed
  from map_filter_all_defined [OF this] show ?thesis
    by (simp add: parseTranscript_def Let_def case_prod_unfold)
qed

text \<open>
  What the sentence of the specification asks of an unlabelled chunk: user or assistant by
  the parity of the number of unlabelled chunks before it.
\<close>

definition alternationRole :: "string list \<Rightarrow> nat \<Rightarrow> CanonicalMessageRole" where
  "alternationRole chunks i =
     (if even (length (filter unlabelled (take i chunks))) then user else assistant)"

definition labelledThenPlain :: string where
  "labelledThenPlain = ''user: Hello'' @ [LF, LF] @ ''plain text''"

text \<open>
  Claim C7, as stated, fails: behind one labelled chunk the first unlabelled chunk is
  given the role assistant, where alternation over the unlabelled chunks alone gives user.
\<close>

theorem parseTranscript_alternation_counterexample:
  "transcriptChunks labelledThenPlain = [''user: Hello'', ''plain text'']
   \<and> unlabelled (transcriptChunks labelledThenPlain ! 1)
   \<and> alternationRole (transcriptChunks labelledThenPlain) 1 = user
   \<and> parseTranscript labelledThenPlain
       = [\<lparr>role = user, content = ''Hello''\<rparr>, \<lparr>role = assistant, content = ''plain text''\<rparr>]
   \<and> role (parseTranscript labelledThenPlain ! 1) \<noteq> alternationRole (transcriptChunks labelledThenPlain) 1"
  by code_simp

text \<open>
  Claim C7, amended. The parser yields one message for each non-empty chunk, and an
  unlabelled chunk gets its role from its own position among all the non-empty chunks,
  labelled or not: user at an even position (counted from zero), assistant at an odd one;
  its content is the chunk.
\<close>

theorem parseTranscript_role_by_position:
  assumes "i < length (transcriptChunks raw)" and "unlabelled (transcriptChunks raw ! i)"
  shows "length (parseTranscript raw) = length (transcriptChunks raw)
         \<and> parseTranscript raw ! i
             = \<lparr>role = (if even i then user else assistant), content = transcriptChunks raw ! i\<rparr>"
proof -
  let ?cs = "transcriptChunks raw"
  from assms(1) have mem: "?cs ! i \<in> set ?cs" by simp
  have len: "length (parseTranscript raw) = length ?cs"
    by (simp add: parseTranscript_map)
  from assms(1) have "parseTranscript raw ! i = the (parseChunk i (?cs ! i))"
    by (simp add: parseTranscript_map)
  also have "\<dots> = \<lparr>role = (if even i then user else assistant), content = ?cs ! i\<rparr>"
    using parseChunk_unlabelled [OF mem assms(2)] by simp
  finally show ?thesis using len by simp
qed

definition threePlain :: string where
  "threePlain = ''First chunk'' @ [LF, LF] @ ''Second chunk'' @ [LF, LF] @ ''Third chunk''"

theorem parseTranscript_role_by_position_witness:
  "1 < length (transcriptChunks threePlain) \<and> unlabelled (transcriptChunks threePlain ! 1)
   \<and> length (parseTranscript threePlain) = 3
   \<and> parseTranscript threePlain ! 1 = \<lparr>role = assistant, content = ''Second chunk''\<rparr>"
proof -
  have c: "transcriptChunks threePlain = [''First chunk'', ''Second chunk'', ''Third chunk'']"
    by code_simp
  have u: "unlabelled (transcriptChunks threePlain ! 1)"
    by code_simp
  have l: "1 < length (transcriptChunks threePlain)"
    by (simp add: c)
  from parseTranscript_role_by_position [OF l u] l u show ?thesis
    by (simp add: c)
qed

section \<open>Properties of the sanitizer\<close>

text \<open>
  A text with paired tags, cut into its pieces: text outside the tags, and spans made of
  an opening tag as written, a body and a closing tag as written.
\<close>

datatype segment = Plain string | Span tag string string string

fun render_segment :: "segment \<Rightarrow> string" where
  "render_segment (Plain p) = p"
| "render_segment (Span t otext body ctext) = otext @ body @ ctext"

definition render :: "segment list \<Rightarrow> string" where
  "render segs = concat (map render_segment segs)"

fun is_plain :: "segment \<Rightarrow> bool" where
  "is_plain (Plain p) = True"
| "is_plain (Span t otext body ctext) = False"

text \<open>\<open>variant p s\<close>: \<open>s\<close> is the tag \<open>p\<close> up to the case of its letters.\<close>

definition variant :: "string \<Rightarrow> string \<Rightarrow> bool" where
  "variant p s = (length s = length p \<and> ci_prefix p s)"

fun wf_segment :: "segment \<Rightarrow> bool" where
  "wf_segment (Plain p) = (CHR ''<'' \<notin> set p)"
| "wf_segment (Span t otext body ctext) =
     (variant (open_tag t) otext \<and> CHR ''<'' \<notin> set body \<and> variant (close_tag t) ctext)"

fun kept :: "tag \<Rightarrow> segment \<Rightarrow> bool" where
  "kept t (Plain p) = True"
| "kept t (Span t' otext body ctext) = (t' \<noteq> t)"

lemma canonicalize_lt: "canonicalize c = CHR ''<'' \<longleftrightarrow> c = CHR ''<''"
  by (cases c) (auto simp: is_lower_def)

lemma canonicalize_lt_self: "canonicalize (CHR ''<'') = CHR ''<''"
  by (simp add: is_lower_def)

lemma variant_map: "variant p s \<longleftrightarrow> map canonicalize s = map canonicalize p"
  unfolding variant_def
  by (induction p s rule: ci_prefix.induct) auto

lemma ci_prefix_take:
  "ci_prefix p s \<longleftrightarrow> take (length p) (map canonicalize s) = map canonicalize p"
  by (induction p s rule: ci_prefix.induct) auto

lemma ci_prefix_append: "ci_prefix p s \<Longrightarrow> ci_prefix p (s @ x)"
  by (induction p s rule: ci_prefix.induct) auto

lemma no_open_at_other_char:
  assumes "CHR ''<'' \<noteq> c"
  shows "\<not> ci_prefix (open_tag t) (c # cs)"
proof
  assume a: "ci_prefix (open_tag t) (c # cs)"
  obtain r where r: "open_tag t = CHR ''<'' # r" by (cases t) simp_all
  from a have "canonicalize (CHR ''<'') = canonicalize c"
    unfolding r by (simp only: ci_prefix.simps)
  then have "canonicalize c = CHR ''<''" by (simp only: canonicalize_lt_self)
  with assms show False by (simp add: canonicalize_lt)
qed

lemma no_close_at_other_char:
  assumes "CHR ''<'' \<noteq> c"
  shows "\<not> ci_prefix (close_tag t) (c # cs)"
proof
  assume a: "ci_prefix (close_tag t) (c # cs)"
  obtain r where r: "close_tag t = CHR ''<'' # r" by (cases t) simp_all
  from a have "canonicalize (CHR ''<'') = canonicalize c"
    unfolding r by (simp only: ci_prefix.simps)
  then have "canonicalize c = CHR ''<''" by (simp only: canonicalize_lt_self)
  with assms show False by (simp add: canonicalize_lt)
qed

lemma removeTagged_skip:
  "\<not> ci_prefix (open_tag t) (c # cs) \<Longrightarrow> removeTagged t (c # cs) = c # removeTagged t cs"
  by simp

lemma removeTagged_plain:
  "CHR ''<'' \<notin> set p \<Longrightarrow> removeTagged t (p @ x) = p @ removeTagged t x"
proof (induction p)
  case Nil
  show ?case by simp
next
  case (Cons a p)
  then have "\<not> ci_prefix (open_tag t) (a # (p @ x))"
    by (intro no_open_at_other_char) simp
  then have "removeTagged t (a # (p @ x)) = a # removeTagged t (p @ x)"
    by (rule removeTagged_skip)
  with Cons show ?case by simp
qed

lemma find_close_plain:
  "CHR ''<'' \<notin> set b \<Longrightarrow> find_close (close_tag t) (b @ y) = find_close (close_tag t) y"
proof (induction b)
  case Nil
  show ?case by simp
next
  case (Cons a b)
  then have "\<not> ci_prefix (close_tag t) (a # (b @ y))"
    by (intro no_close_at_other_char) simp
  with Cons show ?case by simp
qed

lemma variant_nonempty:
  assumes "variant p s" and "p \<noteq> []"
  shows "s \<noteq> []"
  using assms by (auto simp: variant_def)

lemma find_close_at:
  assumes "variant (close_tag t) c"
  shows "find_close (close_tag t) (c @ x) = Some x"
proof -
  have "close_tag t \<noteq> []" by (cases t) simp_all
  with assms obtain a c' where c: "c = a # c'"
    using variant_nonempty by (cases c) auto
  from assms have "ci_prefix (close_tag t) (c @ x)"
    by (simp add: variant_def ci_prefix_append)
  moreover from assms have "drop (length (close_tag t)) (c @ x) = x"
    by (simp add: variant_def)
  ultimately show ?thesis
    unfolding c by simp
qed

lemma removeTagged_own_span:
  assumes "variant (open_tag t) otext" and "CHR ''<'' \<notin> set body"
    and "variant (close_tag t) ctext"
  shows "removeTagged t (otext @ body @ ctext @ x) = removeTagged t x"
proof -
  have "open_tag t \<noteq> []" by (cases t) simp_all
  with assms(1) obtain a o' where o: "otext = a # o'"
    using variant_nonempty by (cases otext) auto
  from assms(1) have p: "ci_prefix (open_tag t) (otext @ body @ ctext @ x)"
    by (simp add: variant_def ci_prefix_append)
  from assms(1) have d: "drop (length (open_tag t)) (otext @ body @ ctext @ x) = body @ ctext @ x"
    by (simp add: variant_def)
  have f: "find_close (close_tag t) (body @ ctext @ x) = Some x"
    using assms(2,3) by (simp add: find_close_plain find_close_at)
  from p d f show ?thesis
    unfolding o by simp
qed

text \<open>A tag of another kind, or a closing tag, is no place where the opening tag matches.\<close>

lemma variant_tail_no_lt:
  assumes "map canonicalize s = map canonicalize p" and "CHR ''<'' \<notin> set (tl (map canonicalize p))"
  shows "CHR ''<'' \<notin> set (tl s)"
proof
  assume "CHR ''<'' \<in> set (tl s)"
  then have "canonicalize (CHR ''<'') \<in> set (map canonicalize (tl s))"
    by (simp only: set_map image_eqI)
  then have "CHR ''<'' \<in> set (tl (map canonicalize s))"
    by (simp only: canonicalize_lt_self map_tl)
  with assms show False by simp
qed

lemma tag_word_kept:
  assumes "map canonicalize w = map canonicalize p" and "p \<noteq> []"
    and "CHR ''<'' \<notin> set (tl (map canonicalize p))"
    and "\<not> ci_prefix (open_tag t) (w @ y)"
  shows "removeTagged t (w @ y) = w @ removeTagged t y"
proof -
  from assms(1,2) obtain a w' where w: "w = a # w'" by (cases w) auto
  from variant_tail_no_lt [OF assms(1,3)] have "CHR ''<'' \<notin> set w'" by (simp add: w)
  then have "removeTagged t (w' @ y) = w' @ removeTagged t y" by (rule removeTagged_plain)
  moreover from assms(4) have "removeTagged t (a # (w' @ y)) = a # removeTagged t (w' @ y)"
    unfolding w by (intro removeTagged_skip) simp
  ultimately show ?thesis by (simp add: w)
qed

lemma other_open_no_match:
  assumes "t' \<noteq> t" and "variant (open_tag t') w"
  shows "\<not> ci_prefix (open_tag t) (w @ y)"
proof -
  from assms(2) have "map canonicalize (w @ y) = map canonicalize (open_tag t') @ map canonicalize y"
    by (simp add: variant_map)
  with assms(1) show ?thesis
    unfolding ci_prefix_take
    by (cases t; cases t'; simp add: is_lower_def)
qed

lemma close_no_open_match:
  assumes "variant (close_tag t') w"
  shows "\<not> ci_prefix (open_tag t) (w @ y)"
proof -
  from assms have "map canonicalize (w @ y) = map canonicalize (close_tag t') @ map canonicalize y"
    by (simp add: variant_map)
  then show ?thesis
    unfolding ci_prefix_take
    by (cases t; cases t'; simp add: is_lower_def)
qed

lemma open_tag_shape:
  "open_tag t \<noteq> [] \<and> CHR ''<'' \<notin> set (tl (map canonicalize (open_tag t)))"
  by (cases t) (simp_all add: is_lower_def)

lemma close_tag_shape:
  "close_tag t \<noteq> [] \<and> CHR ''<'' \<notin> set (tl (map canonicalize (close_tag t)))"
  by (cases t) (simp_all add: is_lower_def)

lemma removeTagged_other_span:
  assumes "t' \<noteq> t" and "variant (open_tag t') otext" and "CHR ''<'' \<notin> set body"
    and "variant (close_tag t') ctext"
  shows "removeTagged t (otext @ body @ ctext @ x) = otext @ body @ ctext @ removeTagged t x"
proof -
  have "removeTagged t (otext @ body @ ctext @ x) = otext @ removeTagged t (body @ ctext @ x)"
    using assms(1,2) open_tag_shape [of t']
    by (intro tag_word_kept [where p = "open_tag t'"])
      (simp_all add: variant_map [symmetric] other_open_no_match)
  also have "removeTagged t (body @ ctext @ x) = body @ removeTagged t (ctext @ x)"
    using assms(3) by (rule removeTagged_plain)
  also have "removeTagged t (ctext @ x) = ctext @ removeTagged t x"
    using assms(4) close_tag_shape [of t']
    by (intro tag_word_kept [where p = "close_tag t'"])
      (simp_all add: variant_map [symmetric] close_no_open_match)
  finally show ?thesis .
qed

lemma removeTagged_render:
  assumes "\<forall>s\<in>set segs. wf_segment s"
  shows "removeTagged t (render segs) = render (filter (kept t) segs)"
  using assms
proof (induction segs)
  case Nil
  show ?case by (simp add: render_def)
next
  case (Cons s segs)
  then have ih: "removeTagged t (render segs) = render (filter (kept t) segs)" by simp
  show ?case
  proof (cases s)
    case (Plain p)
    with Cons.prems have "CHR ''<'' \<notin> set p" by simp
    then have "removeTagged t (p @ render segs) = p @ removeTagged t (render segs)"
      by (rule removeTagged_plain)
    with ih show ?thesis by (simp add: render_def Plain)
  next
    case (Span t' otext body ctext)
    with Cons.prems have wf: "variant (open_tag t') otext" "CHR ''<'' \<notin> set body"
      "variant (close_tag t') ctext" by simp_all
    show ?thesis
    proof (cases "t' = t")
      case True
      with wf have "removeTagged t (otext @ body @ ctext @ render segs) = removeTagged t (render segs)"
        by (intro removeTagged_own_span) simp_all
      with ih True show ?thesis by (simp add: render_def Span)
    next
      case False
      with wf have "removeTagged t (otext @ body @ ctext @ render segs)
                      = otext @ body @ ctext @ removeTagged t (render segs)"
        by (intro removeTagged_other_span) simp_all
      with ih False show ?thesis by (simp add: render_def Span)
    qed
  qed
qed

lemma kept_all_plain: "(kept Caveat s \<and> kept Reminder s \<and> kept Stdout s) = is_plain s"
proof (cases s)
  case (Plain p)
  then show ?thesis by simp
next
  case (Span t otext body ctext)
  then show ?thesis by (cases t) simp_all
qed

text \<open>
  Claim C8, amended. Take a text made of pieces that hold no \<open><\<close> and of tagged spans:
  an opening tag of one of the three kinds in any letter case, a body that holds no
  \<open><\<close>, and the closing tag of the same kind in any letter case. The sanitizer returns
  the pieces outside the spans, joined in their order, with the white space at both ends
  trimmed. A text that is one such span gives the empty string.
\<close>

theorem sanitizeImportedText_removes_spans:
  assumes "\<forall>s\<in>set segs. wf_segment s"
  shows "sanitizeImportedText (render segs) = trim (render (filter is_plain segs))"
proof -
  let ?c = "filter (kept Caveat) segs"
  let ?r = "filter (kept Reminder) ?c"
  from assms have wc: "\<forall>s\<in>set ?c. wf_segment s" by simp
  then have wr: "\<forall>s\<in>set ?r. wf_segment s" by simp
  have "removeTagged Stdout (removeTagged Reminder (removeTagged Caveat (render segs)))
          = render (filter (kept Stdout) ?r)"
    by (simp only: removeTagged_render [OF assms] removeTagged_render [OF wc]
        removeTagged_render [OF wr])
  also have "filter (kept Stdout) ?r = filter is_plain segs"
    by (simp add: kept_all_plain conj_commute conj_left_commute)
  finally show ?thesis by (simp add: sanitizeImportedText_def)
qed

definition multilineReminder :: "segment list" where
  "multilineReminder =
     [Plain (''  before'' @ [LF]),
      Span Reminder ''<System-Reminder>'' (LF # ''line1'' @ LF # ''line2'' @ [LF]) ''</SYSTEM-REMINDER>'',
      Plain (LF # ''after  '')]"

definition oneSpan :: "segment list" where
  "oneSpan = [Span Caveat ''<local-command-caveat>'' ''secret'' ''</local-command-caveat>'']"

theorem sanitizeImportedText_removes_spans_witness:
  "list_all wf_segment multilineReminder
   \<and> sanitizeImportedText (render multilineReminder) = ''before'' @ [LF, LF] @ ''after''
   \<and> list_all wf_segment oneSpan \<and> sanitizeImportedText (render oneSpan) = []"
proof -
  have w1: "\<forall>s\<in>set multilineReminder. wf_segment s"
    by (simp add: multilineReminder_def variant_def is_lower_def)
  have w2: "\<forall>s\<in>set oneSpan. wf_segment s"
    by (simp add: oneSpan_def variant_def is_lower_def)
  have r1: "trim (render (filter is_plain multilineReminder)) = ''before'' @ [LF, LF] @ ''after''"
    by (simp add: multilineReminder_def render_def trim_def is_space_def)
  have r2: "trim (render (filter is_plain oneSpan)) = []"
    by (simp add: oneSpan_def render_def)
  from sanitizeImportedText_removes_spans [OF w1] sanitizeImportedText_removes_spans [OF w2]
    w1 w2 r1 r2
  show ?thesis by (simp add: list_all_iff)
qed

text \<open>
  Claim C8, as stated, fails in two ways. The three tags are removed one kind after the
  other, so text outside the spans that comes together once a caveat span is gone can form
  a reminder span, which is then removed too: the text outside the spans is altered. And a
  span ends at the first closing tag, so a span nested in a span of its kind leaves the
  rest of the outer span behind.
\<close>

definition stitched :: "segment list" where
  "stitched =
     [Plain ''<system-rem'',
      Span Caveat ''<local-command-caveat>'' ''z'' ''</local-command-caveat>'',
      Plain ''inder>x</system-rem'',
      Span Caveat ''<local-command-caveat>'' ''z'' ''</local-command-caveat>'',
      Plain ''inder>'']"

theorem sanitizeImportedText_counterexample:
  "render stitched
     = ''<system-rem<local-command-caveat>z</local-command-caveat>inder>x</system-rem<local-command-caveat>z</local-command-caveat>inder>''
   \<and> trim (render (filter is_plain stitched)) = ''<system-reminder>x</system-reminder>''
   \<and> sanitizeImportedText (render stitched) = []
   \<and> sanitizeImportedText ''<system-reminder>a<system-reminder>b</system-reminder>c</system-reminder>''
       = ''c</system-reminder>''"
  by code_simp

section \<open>The bundle entry point on a known session\<close>






section \<open>Cycles of the watcher\<close>

text \<open>
  Claim C5, as stated, fails: once the timer is installed, two fires of the timer with no
  end of a cycle between them leave two cycles in progress.
\<close>

theorem watcher_overlap_counterexample:
  "w_running (watcherRun [CycleEnds, TimerFires, TimerFires]) = 2"
  by (simp add: watcherRun_def watcherStart_def)

lemma watcherRun_snoc: "watcherRun (events @ [e]) = watcherStep (watcherRun events) e"
  by (simp add: watcherRun_def)

lemma first_tick_alone:
  "w_phase (watcherRun events) = FirstTick \<Longrightarrow> w_running (watcherRun events) = 1"
proof (induction events rule: rev_induct)
  case Nil
  show ?case by (simp add: watcherRun_def watcherStart_def)
next
  case (snoc e events)
  then show ?case
    by (cases e) (auto simp: watcherRun_snoc split: if_splits)
qed

text \<open>
  Claim C5, amended. The watcher awaits its first cycle before it installs the timer, so
  that cycle runs alone. From then on every fire of the timer starts a cycle whatever the
  number of cycles in progress, which it raises by one: no flag serialises the ticks, and
  cycles overlap when one outlasts the poll interval.
\<close>

theorem watcher_ticks_unguarded:
  "(w_phase (watcherRun events) = FirstTick \<longrightarrow> w_running (watcherRun events) = 1)
   \<and> (w_phase (watcherRun events) = Polling \<longrightarrow>
        w_running (watcherRun (events @ [TimerFires])) = Suc (w_running (watcherRun events)))"
  using first_tick_alone [of events] by (simp add: watcherRun_snoc)

theorem watcher_ticks_unguarded_witness:
  "w_phase (watcherRun [TimerFires]) = FirstTick \<and> w_running (watcherRun [TimerFires]) = 1
   \<and> w_phase (watcherRun [CycleEnds, TimerFires]) = Polling
   \<and> w_running (watcherRun [CycleEnds, TimerFires]) = 1
   \<and> w_running (watcherRun ([CycleEnds, TimerFires] @ [TimerFires])) = 2"
proof -
  have p1: "w_phase (watcherRun [TimerFires]) = FirstTick"
    by (simp add: watcherRun_def watcherStart_def)
  have p2: "w_phase (watcherRun [CycleEnds, TimerFires]) = Polling"
    by (simp add: watcherRun_def watcherStart_def)
  have r2: "w_running (watcherRun [CycleEnds, TimerFires]) = 1"
    by (simp add: watcherRun_def watcherStart_def)
  from watcher_ticks_unguarded [of "[TimerFires]"] p1
  have a: "w_running (watcherRun [TimerFires]) = 1" by blast
  from watcher_ticks_unguarded [of "[CycleEnds, TimerFires]"] p2 r2
  have b: "w_running (watcherRun ([CycleEnds, TimerFires] @ [TimerFires])) = 2" by simp
  from p1 a p2 r2 b show ?thesis by blast
qed

section \<open>Checkpoints and the scan window\<close>


lemma recordFailure_checkpoints [simp]:
  "bk_checkpoints (recordFailure now source runId error bk) = bk_checkpoints bk"
  by (simp add: recordFailure_def Let_def updateSource_def updateRun_def)






section \<open>A failing source does not stop the cycle\<close>

















lemma ensureDefault_runs [simp]:
  "bk_runs (ensureDefaultIngestionSources env now bk) = bk_runs bk"
  by (simp add: ensureDefaultIngestionSources_def Let_def split: prod.splits)






section \<open>Ordinals of messages and parts\<close>

lemma renumber_length [simp]: "length (renumber ms) = length ms"
  by (simp add: renumber_def)



lemma timeKey_ordinal [simp]: "timeKey (m\<lparr>m_ordinal := i\<rparr>) = timeKey m"
  by (simp add: timeKey_def)


































section \<open>Claim C3: the writes of the adapter persistence path\<close>






section \<open>Claim C1: a repeated scan\<close>










end
